theory Spec2Isabelle
  imports Complex_Main "HOL-Library.Sublist" "HOL-Library.Multiset"
begin

section \<open>JavaScript strings\<close>

text \<open>
  Strings are lists of characters. The case conversions of the source
  (\<^verbatim>\<open>toLowerCase\<close>, \<^verbatim>\<open>toUpperCase\<close>) are modelled on the ASCII letters, every other
  character is left unchanged; \<^verbatim>\<open>s.substring(0, n)\<close> is \<open>take n s\<close> and
  \<^verbatim>\<open>text.includes(pat)\<close> is the contiguous-substring test.
\<close>

definition upperAlpha :: string where
  "upperAlpha = ''ABCDEFGHIJKLMNOPQRSTUVWXYZ''"

definition lowerAlpha :: string where
  "lowerAlpha = ''abcdefghijklmnopqrstuvwxyz''"

definition lowerChar :: "char \<Rightarrow> char" where
  "lowerChar c = (case map_of (zip upperAlpha lowerAlpha) c of Some l \<Rightarrow> l | None \<Rightarrow> c)"

definition upperChar :: "char \<Rightarrow> char" where
  "upperChar c = (case map_of (zip lowerAlpha upperAlpha) c of Some u \<Rightarrow> u | None \<Rightarrow> c)"

definition toLowerCase :: "string \<Rightarrow> string" where
  "toLowerCase s = map lowerChar s"

definition toUpperCase :: "string \<Rightarrow> string" where
  "toUpperCase s = map upperChar s"

definition substring0 :: "nat \<Rightarrow> string \<Rightarrow> string" where
  "substring0 n s = take n s"

fun startsWith :: "string \<Rightarrow> string \<Rightarrow> bool" where
  "startsWith s [] = True"
| "startsWith [] (p # ps) = False"
| "startsWith (c # cs) (p # ps) = (c = p \<and> startsWith cs ps)"


section \<open>Articles\<close>

text \<open>
  The article objects built by the news adapters of \<^verbatim>\<open>server.js\<close>. Every adapter
  sets \<^verbatim>\<open>headline\<close> to a string (it calls \<^verbatim>\<open>getImpactLevel\<close> on it inside its own
  \<^verbatim>\<open>try\<close>, which raises on anything else), so the headline is a string here. The
  properties that the placeholder article of \<^verbatim>\<open>getMockNews\<close> does not have are
  optional (\<open>None\<close> is JavaScript's \<^verbatim>\<open>undefined\<close>).

  \<^verbatim>\<open>publishedAt\<close> is a string that denotes an instant (milliseconds since the epoch).
  The code reads it with \<^verbatim>\<open>new Date(article.publishedAt)\<close>: \<open>Parsed t\<close> is a string that
  \<^verbatim>\<open>Date\<close> parses (the ISO form of NewsAPI, Finnhub and Polygon), with time value \<open>t\<close>;
  \<open>Unparsed t\<close> is a string that denotes \<open>t\<close> in a form \<^verbatim>\<open>Date\<close> does not parse (the
  compact \<^verbatim>\<open>20240410T013000\<close> of Alpha Vantage's \<^verbatim>\<open>time_published\<close>): its Date is
  invalid and its time value is NaN.
\<close>

datatype published = Parsed int | Unparsed int

definition timeValue :: "published \<Rightarrow> int option" where
  "timeValue p = (case p of Parsed t \<Rightarrow> Some t | Unparsed t \<Rightarrow> None)"

definition instant :: "published \<Rightarrow> int" where
  "instant p = (case p of Parsed t \<Rightarrow> t | Unparsed t \<Rightarrow> t)"

record article =
  headline :: string
  summary :: string
  source :: string
  url :: "string option"
  publishedAt :: published
  sentiment :: string
  impact :: string
  relevanceScore :: "int option"
  category :: "string option"
  sourceTier :: "string option"

section \<open>News reconciliation\<close>

subsection \<open>removeDuplicateArticles\<close>

definition dedupKey :: "article \<Rightarrow> string" where
  "dedupKey a = substring0 50 (toLowerCase (headline a))"

text \<open>The filter callback with its mutable \<^verbatim>\<open>seen\<close> set, threaded through the list.\<close>

fun removeDuplicates_from :: "string set \<Rightarrow> article list \<Rightarrow> article list" where
  "removeDuplicates_from seen [] = []"
| "removeDuplicates_from seen (a # as) =
     (if dedupKey a \<in> seen then removeDuplicates_from seen as
      else a # removeDuplicates_from (insert (dedupKey a) seen) as)"

definition removeDuplicateArticles :: "article list \<Rightarrow> article list" where
  "removeDuplicateArticles articles = removeDuplicates_from {} articles"

subsection \<open>calculateRelevanceScore\<close>








subsection \<open>sortArticlesByRelevance\<close>

text \<open>
  \<^verbatim>\<open>tierWeight[a.sourceTier] || 1\<close> over the literal \<^verbatim>\<open>{tier1: 3, tier2: 2, tier3: 1}\<close>.
\<close>

definition tierWeight :: "string option \<Rightarrow> int" where
  "tierWeight t = (if t = Some ''tier1'' then 3 else if t = Some ''tier2'' then 2 else 1)"

text \<open>
  The comparator. Its result is a JavaScript number: \<open>Some v\<close> is the number \<open>v\<close>,
  \<open>None\<close> is NaN, which a subtraction yields when an operand is \<^verbatim>\<open>undefined\<close> or
  the time value of an Invalid Date.
\<close>

definition jsMinus :: "int option \<Rightarrow> int option \<Rightarrow> int option" where
  "jsMinus x y = (case x of None \<Rightarrow> None | Some u \<Rightarrow> (case y of None \<Rightarrow> None | Some v \<Rightarrow> Some (u - v)))"

definition compareArticles :: "article \<Rightarrow> article \<Rightarrow> int option" where
  "compareArticles a b =
     (if relevanceScore b \<noteq> relevanceScore a then jsMinus (relevanceScore b) (relevanceScore a)
      else
        (let aTierWeight = tierWeight (sourceTier a);
             bTierWeight = tierWeight (sourceTier b)
         in if bTierWeight \<noteq> aTierWeight then Some (bTierWeight - aTierWeight)
            else jsMinus (timeValue (publishedAt b)) (timeValue (publishedAt a))))"

text \<open>
  \<^verbatim>\<open>Array.prototype.sort\<close> with a comparator: a NaN result counts as 0, the sort is
  stable, and with a consistent comparator every conforming engine returns the same
  array. It is modelled as the stable insertion sort: an element is placed before the
  first element that it does not sort after. (With an inconsistent comparator the order
  is the engine's choice; on the arrays evaluated below V8's run detection and binary
  insertion give the same result as this model.)
\<close>

definition notAfter :: "('a \<Rightarrow> 'a \<Rightarrow> int option) \<Rightarrow> 'a \<Rightarrow> 'a \<Rightarrow> bool" where
  "notAfter cmp x y = (case cmp x y of None \<Rightarrow> True | Some v \<Rightarrow> v \<le> 0)"

fun insertSorted :: "('a \<Rightarrow> 'a \<Rightarrow> int option) \<Rightarrow> 'a \<Rightarrow> 'a list \<Rightarrow> 'a list" where
  "insertSorted cmp x [] = [x]"
| "insertSorted cmp x (y # ys) =
     (if notAfter cmp x y then x # y # ys else y # insertSorted cmp x ys)"

definition arraySort :: "('a \<Rightarrow> 'a \<Rightarrow> int option) \<Rightarrow> 'a list \<Rightarrow> 'a list" where
  "arraySort cmp xs = foldr (insertSorted cmp) xs []"

definition sortArticlesByRelevance :: "article list \<Rightarrow> string \<Rightarrow> article list" where
  "sortArticlesByRelevance articles0 symbol0 = arraySort compareArticles articles0"

text \<open>
  The order the specification describes: \<open>rankedBefore a b\<close> says that \<open>a\<close> must come
  before \<open>b\<close>, by score, then tier weight, then the instant of publication.
\<close>

definition rankKey :: "article \<Rightarrow> int \<times> int \<times> int" where
  "rankKey a = (case relevanceScore a of None \<Rightarrow> 0 | Some s \<Rightarrow> s,
                tierWeight (sourceTier a),
                instant (publishedAt a))"

fun keyGreater :: "int \<times> int \<times> int \<Rightarrow> int \<times> int \<times> int \<Rightarrow> bool" where
  "keyGreater (s1, w1, t1) (s2, w2, t2) =
     (s1 > s2 \<or> (s1 = s2 \<and> (w1 > w2 \<or> (w1 = w2 \<and> t1 > t2))))"

definition rankedBefore :: "article \<Rightarrow> article \<Rightarrow> bool" where
  "rankedBefore a b = keyGreater (rankKey a) (rankKey b)"

definition wellDated :: "article \<Rightarrow> bool" where
  "wellDated a = (relevanceScore a \<noteq> None \<and> timeValue (publishedAt a) \<noteq> None)"

section \<open>Sentiment aggregation\<close>

text \<open>
  JavaScript numbers that are not integers are modelled as exact rationals: the
  rounding of IEEE doubles is not part of the model. \<^verbatim>\<open>parseFloat(x.toFixed(d))\<close> rounds
  to \<open>d\<close> decimals, a tie away from zero.
\<close>

definition toFixed :: "nat \<Rightarrow> rat \<Rightarrow> rat" where
  "toFixed d x =
     (let n = \<lfloor>\<bar>x\<bar> * 10 ^ d + 1 / 2\<rfloor>
      in if x < 0 then - (of_int n / 10 ^ d) else of_int n / 10 ^ d)"

record distribution =
  positive :: nat
  negative :: nat
  neutral :: nat

record sentimentAnalysis =
  overall :: string
  score :: rat
  distribution :: distribution
  articles :: "article list"

text \<open>The \<^verbatim>\<open>switch\<close> of the \<^verbatim>\<open>forEach\<close> callback, on the three counters.\<close>

definition countSentiment :: "article \<Rightarrow> distribution \<Rightarrow> distribution" where
  "countSentiment a d =
     (if sentiment a = ''positive'' then d\<lparr>positive := positive d + 1\<rparr>
      else if sentiment a = ''negative'' then d\<lparr>negative := negative d + 1\<rparr>
      else d\<lparr>neutral := neutral d + 1\<rparr>)"

definition rawScore :: "distribution \<Rightarrow> nat \<Rightarrow> rat" where
  "rawScore d totalCount =
     (if totalCount > 0 then ((of_nat (positive d) - of_nat (negative d)) / of_nat totalCount) * 100 else 0)"

definition overallLabel :: "rat \<Rightarrow> string" where
  "overallLabel sc = (if sc > 20 then ''positive'' else if sc < - 20 then ''negative'' else ''neutral'')"

definition calculateSentimentScore :: "article list \<Rightarrow> sentimentAnalysis" where
  "calculateSentimentScore articles0 =
     (let d = fold countSentiment articles0 \<lparr>positive = 0, negative = 0, neutral = 0\<rparr>;
          totalCount = length articles0;
          sc = rawScore d totalCount
      in \<lparr>overall = overallLabel sc, score = toFixed 1 sc, distribution = d, articles = articles0\<rparr>)"

text \<open>
  The aggregate as the specification words it: the three counts, and the score
  \<open>(positiveCount - negativeCount) / totalArticles * 100\<close>, 0 for no articles.
\<close>

definition positiveCount :: "article list \<Rightarrow> nat" where
  "positiveCount xs = length (filter (\<lambda>a. sentiment a = ''positive'') xs)"

definition negativeCount :: "article list \<Rightarrow> nat" where
  "negativeCount xs = length (filter (\<lambda>a. sentiment a = ''negative'') xs)"

definition neutralCount :: "article list \<Rightarrow> nat" where
  "neutralCount xs =
     length (filter (\<lambda>a. sentiment a \<noteq> ''positive'' \<and> sentiment a \<noteq> ''negative'') xs)"

definition scoreFormula :: "article list \<Rightarrow> rat" where
  "scoreFormula xs =
     (if xs = [] then 0
      else (of_nat (positiveCount xs) - of_nat (negativeCount xs)) / of_nat (length xs) * 100)"

section \<open>The news fan-out\<close>

text \<open>
  A value that reaches a function as its \<^verbatim>\<open>symbol\<close> argument: a string, or any other
  JavaScript value, of which the model keeps whether it is truthy and what \<^verbatim>\<open>String\<close>
  makes of it. Calling \<^verbatim>\<open>toUpperCase\<close> on a value that is not a string raises a
  TypeError.
\<close>

datatype jsval = JString string | JOther bool string

definition truthy :: "jsval \<Rightarrow> bool" where
  "truthy v = (case v of JString s \<Rightarrow> s \<noteq> [] | JOther t r \<Rightarrow> t)"

definition toStr :: "jsval \<Rightarrow> string" where
  "toStr v = (case v of JString s \<Rightarrow> s | JOther t r \<Rightarrow> r)"

definition callToUpperCase :: "jsval \<Rightarrow> string + string" where
  "callToUpperCase v =
     (case v of JString s \<Rightarrow> Inr (toUpperCase s)
      | JOther t r \<Rightarrow> Inl ''symbol.toUpperCase is not a function'')"

text \<open>
  What a news provider answers. \<open>Unavailable e\<close>: the request, or the reading of the
  response, raised an error with message \<open>e\<close> (time-out, status that is not 2xx,
  malformed payload). \<open>NoList\<close>: the response has no article list (\<^verbatim>\<open>feed\<close>,
  \<^verbatim>\<open>results\<close>). \<open>Articles as\<close>: the list of provider articles, each already in the
  shape the adapter's \<^verbatim>\<open>map\<close> callback gives it.
\<close>

datatype newsAnswer = Unavailable string | NoList | Articles "article list"

definition configured :: "string option \<Rightarrow> bool" where
  "configured k = (case k of None \<Rightarrow> False | Some s \<Rightarrow> s \<noteq> [])"

record newsService =
  newsApiKey :: "string option"
  finnhubKey :: "string option"
  alphavantageKey :: "string option"
  polygonKey :: "string option"
  newsApi :: "string \<Rightarrow> string \<Rightarrow> newsAnswer"
  finnhub :: "string \<Rightarrow> newsAnswer"
  alphaVantageFeed :: "string \<Rightarrow> newsAnswer"
  polygonNews :: "string \<Rightarrow> newsAnswer"

text \<open>
  The four adapters. Each has its own \<^verbatim>\<open>try\<close>/\<^verbatim>\<open>catch\<close> and returns the empty list
  when its key is missing or anything raises; none of them rejects.
\<close>

definition getNewsAPIArticles :: "('x newsService_scheme) \<Rightarrow> string \<Rightarrow> string \<Rightarrow> article list" where
  "getNewsAPIArticles svc companyName symbol0 =
     (if \<not> configured (newsApiKey svc) then []
      else case newsApi svc companyName symbol0 of
             Unavailable e \<Rightarrow> [] | NoList \<Rightarrow> [] | Articles as \<Rightarrow> as)"

definition getFinnhubNews :: "('x newsService_scheme) \<Rightarrow> string \<Rightarrow> article list" where
  "getFinnhubNews svc symbol0 =
     (if \<not> configured (finnhubKey svc) then []
      else case finnhub svc (toUpperCase symbol0) of
             Unavailable e \<Rightarrow> [] | NoList \<Rightarrow> [] | Articles as \<Rightarrow> take 15 as)"

definition getAlphaVantageNews :: "('x newsService_scheme) \<Rightarrow> string \<Rightarrow> article list" where
  "getAlphaVantageNews svc symbol0 =
     (if \<not> configured (alphavantageKey svc) then []
      else case alphaVantageFeed svc (toUpperCase symbol0) of
             Unavailable e \<Rightarrow> [] | NoList \<Rightarrow> [] | Articles as \<Rightarrow> as)"

definition getPolygonNews :: "('x newsService_scheme) \<Rightarrow> string \<Rightarrow> article list" where
  "getPolygonNews svc symbol0 =
     (if \<not> configured (polygonKey svc) then []
      else case polygonNews svc (toUpperCase symbol0) of
             Unavailable e \<Rightarrow> [] | NoList \<Rightarrow> [] | Articles as \<Rightarrow> as)"

text \<open>The outcome of one promise under \<^verbatim>\<open>Promise.allSettled\<close>.\<close>

datatype 'a settled = Fulfilled 'a | Rejected string

definition companyNames :: "(string \<times> string) list" where
  "companyNames =
     [(''AAPL'', ''Apple Inc''), (''MSFT'', ''Microsoft Corporation''), (''GOOGL'', ''Google Alphabet''),
      (''AMZN'', ''Amazon''), (''TSLA'', ''Tesla Inc''), (''META'', ''Meta Facebook''),
      (''NVDA'', ''Nvidia Corporation''), (''BTC'', ''Bitcoin''), (''ETH'', ''Ethereum'')]"

definition companyNameOf :: "string \<Rightarrow> string" where
  "companyNameOf s = (case map_of companyNames (toUpperCase s) of Some n \<Rightarrow> n | None \<Rightarrow> s)"

text \<open>
  The \<^verbatim>\<open>forEach\<close> over the settled results: a fulfilled result with a value appends
  its list, every other result is skipped.
\<close>

definition appendSettled :: "article list option settled \<Rightarrow> article list \<Rightarrow> article list" where
  "appendSettled result allArticles =
     (case result of
        Fulfilled (Some as) \<Rightarrow> allArticles @ as
      | Fulfilled None \<Rightarrow> allArticles
      | Rejected e \<Rightarrow> allArticles)"

definition reconcile :: "article list option settled list \<Rightarrow> string \<Rightarrow> article list" where
  "reconcile newsSources symbol0 =
     (let allArticles = fold appendSettled newsSources [];
          uniqueArticles = removeDuplicateArticles allArticles;
          sortedArticles = sortArticlesByRelevance uniqueArticles symbol0
      in take 25 sortedArticles)"

text \<open>\<^verbatim>\<open>getMockNews\<close>; \<open>now\<close> is the time value of \<^verbatim>\<open>new Date()\<close>.\<close>

definition getMockNews :: "jsval \<Rightarrow> int \<Rightarrow> article list" where
  "getMockNews symbol0 now =
     [\<lparr>headline = toStr symbol0 @ '' Market Analysis Update'',
       summary = ''Latest analysis shows '' @ toStr symbol0
                   @ '' maintaining steady performance in current market conditions.'',
       source = ''Financial Analysis'',
       url = None,
       publishedAt = Parsed now,
       sentiment = ''neutral'',
       impact = ''medium'',
       relevanceScore = None,
       category = None,
       sourceTier = None\<rparr>]"

text \<open>
  The body of the \<^verbatim>\<open>try\<close> block of \<^verbatim>\<open>getComprehensiveNews\<close>: \<open>Inl e\<close> when it raises
  (\<^verbatim>\<open>symbol.toUpperCase()\<close> is its first step), \<open>Inr\<close> of the returned list otherwise.
  The four adapter calls are made before \<^verbatim>\<open>Promise.allSettled\<close> awaits any of them.
\<close>

definition adapterLists :: "('x newsService_scheme) \<Rightarrow> string \<Rightarrow> article list list" where
  "adapterLists svc s =
     [getNewsAPIArticles svc (companyNameOf s) s,
      getFinnhubNews svc s,
      getAlphaVantageNews svc s,
      getPolygonNews svc s]"

definition comprehensiveNewsBody :: "('x newsService_scheme) \<Rightarrow> jsval \<Rightarrow> string + article list" where
  "comprehensiveNewsBody svc symbol0 =
     (case callToUpperCase symbol0 of
        Inl e \<Rightarrow> Inl e
      | Inr upper \<Rightarrow>
          (let s = toStr symbol0;
               newsSources = map (\<lambda>as. Fulfilled (Some as)) (adapterLists svc s)
           in Inr (reconcile newsSources s)))"

text \<open>
  \<^verbatim>\<open>getComprehensiveNews\<close> is an \<^verbatim>\<open>async\<close> function: its result is the outcome of the
  promise it returns. The \<^verbatim>\<open>catch\<close> clause answers every error of the body with
  \<^verbatim>\<open>getMockNews\<close>.
\<close>

definition getComprehensiveNews :: "('x newsService_scheme) \<Rightarrow> int \<Rightarrow> jsval \<Rightarrow> article list settled" where
  "getComprehensiveNews svc now symbol0 =
     (case comprehensiveNewsBody svc symbol0 of
        Inl e \<Rightarrow> Fulfilled (getMockNews symbol0 now)
      | Inr as \<Rightarrow> Fulfilled as)"

section \<open>The earnings providers\<close>

text \<open>
  Of an earnings record the model keeps the success flag, the \<^verbatim>\<open>source\<close>, the
  \<^verbatim>\<open>outlook.analystExpectations\<close> text and the number of \<^verbatim>\<open>historicalQuarters\<close>; the
  figures of the quarters (random numbers in the estimate) are left out. A failed
  adapter returns \<^verbatim>\<open>{ success: false }\<close>.
\<close>

record earnings =
  success :: bool
  earningsSource :: "string option"
  analystExpectations :: "string option"
  historicalQuarters :: "nat option"
  message :: "string option"

definition noEarnings :: earnings where
  "noEarnings = \<lparr>success = False, earningsSource = None, analystExpectations = None,
                  historicalQuarters = None, message = None\<rparr>"

text \<open>
  What an earnings provider answers: an error (the request or the reading of the response
  raised), or a list of quarterly records, of which the model keeps the length (0 also
  for a response without the list).
\<close>

datatype earningsAnswer = EarningsError string | Quarters nat

text \<open>
  The service object: the keys read from the environment, and the answers of the
  providers to the requests the adapters make.
\<close>

record financialService = newsService +
  fmpKey :: "string option"
  fmpIncomeStatement :: "string \<Rightarrow> earningsAnswer"
  alphaVantageEarnings :: "string \<Rightarrow> earningsAnswer"
  polygonFinancials :: "string \<Rightarrow> earningsAnswer"

text \<open>
  The adapters are \<^verbatim>\<open>async\<close> functions: a call runs the body up to its first
  \<^verbatim>\<open>await\<close>, which is the HTTP request. The trace records, in order, which adapter
  was called and which request was sent.
\<close>

datatype provider = FMP | AlphaVantage | Polygon

datatype event = Invoked provider | Requested provider

definition getFMPEarnings :: "('x financialService_scheme) \<Rightarrow> string \<Rightarrow> event list \<Rightarrow> earnings \<times> event list" where
  "getFMPEarnings svc symbol0 trace =
     (if \<not> configured (fmpKey svc) then (noEarnings, trace @ [Invoked FMP])
      else
        (case fmpIncomeStatement svc symbol0 of
           EarningsError e \<Rightarrow> noEarnings
         | Quarters n \<Rightarrow>
             if n > 0 then
               \<lparr>success = True, earningsSource = Some ''FMP'',
                analystExpectations = Some ''Data from FMP API'',
                historicalQuarters = Some (min n 4), message = None\<rparr>
             else noEarnings,
         trace @ [Invoked FMP, Requested FMP]))"

definition getAlphaVantageEarnings :: "('x financialService_scheme) \<Rightarrow> string \<Rightarrow> event list \<Rightarrow> earnings \<times> event list" where
  "getAlphaVantageEarnings svc symbol0 trace =
     (if \<not> configured (alphavantageKey svc) then (noEarnings, trace @ [Invoked AlphaVantage])
      else
        (case alphaVantageEarnings svc (toUpperCase symbol0) of
           EarningsError e \<Rightarrow> noEarnings
         | Quarters n \<Rightarrow>
             if n > 0 then
               \<lparr>success = True, earningsSource = Some ''Alpha Vantage'',
                analystExpectations = Some ''Data from Alpha Vantage'',
                historicalQuarters = Some (min n 4), message = None\<rparr>
             else noEarnings,
         trace @ [Invoked AlphaVantage, Requested AlphaVantage]))"

definition getPolygonEarnings :: "('x financialService_scheme) \<Rightarrow> string \<Rightarrow> event list \<Rightarrow> earnings \<times> event list" where
  "getPolygonEarnings svc symbol0 trace =
     (if \<not> configured (polygonKey svc) then (noEarnings, trace @ [Invoked Polygon])
      else
        (case polygonFinancials svc symbol0 of
           EarningsError e \<Rightarrow> noEarnings
         | Quarters n \<Rightarrow>
             if n > 0 then
               \<lparr>success = True, earningsSource = Some ''Polygon'',
                analystExpectations = Some ''Data from Polygon API'',
                historicalQuarters = None, message = None\<rparr>
             else noEarnings,
         trace @ [Invoked Polygon, Requested Polygon]))"

definition generateMockEarnings :: earnings where
  "generateMockEarnings =
     \<lparr>success = True, earningsSource = Some ''Estimated'',
      analystExpectations = Some ''Configure API keys for real earnings data'',
      historicalQuarters = Some 4, message = None\<rparr>"

text \<open>The \<^verbatim>\<open>for\<close> loop over the settled results: it returns at the first success.\<close>

fun firstSuccessful :: "earnings settled list \<Rightarrow> earnings option" where
  "firstSuccessful [] = None"
| "firstSuccessful (Fulfilled v # rs) = (if success v then Some v else firstSuccessful rs)"
| "firstSuccessful (Rejected e # rs) = firstSuccessful rs"

text \<open>
  \<^verbatim>\<open>getQuarterlyEarnings\<close>: the array literal calls the three adapters, in order, before
  \<^verbatim>\<open>Promise.allSettled\<close> awaits them; the loop then reads the settled results.
\<close>

definition getQuarterlyEarnings :: "('x financialService_scheme) \<Rightarrow> string \<Rightarrow> event list \<Rightarrow> earnings \<times> event list" where
  "getQuarterlyEarnings svc symbol0 trace =
     (let (r1, trace1) = getFMPEarnings svc symbol0 trace;
          (r2, trace2) = getAlphaVantageEarnings svc symbol0 trace1;
          (r3, trace3) = getPolygonEarnings svc symbol0 trace2;
          earningsData = [Fulfilled r1, Fulfilled r2, Fulfilled r3]
      in (case firstSuccessful earningsData of
            Some v \<Rightarrow> v
          | None \<Rightarrow> generateMockEarnings,
          trace3))"

definition invocations :: "event list \<Rightarrow> provider list" where
  "invocations trace = concat (map (\<lambda>ev. case ev of Invoked p \<Rightarrow> [p] | Requested p \<Rightarrow> []) trace)"

definition requests :: "event list \<Rightarrow> provider list" where
  "requests trace = concat (map (\<lambda>ev. case ev of Invoked p \<Rightarrow> [] | Requested p \<Rightarrow> [p]) trace)"

section \<open>Quotes\<close>

text \<open>
  A JavaScript number as the result of a division: a (rational) value, NaN or an
  infinity. Every operand below is a finite number, as JSON numbers are.
\<close>

datatype jsnum = Num rat | NaN | PosInfinity | NegInfinity

definition jsDivide :: "rat \<Rightarrow> rat \<Rightarrow> jsnum" where
  "jsDivide a b =
     (if b = 0 then (if a = 0 then NaN else if a > 0 then PosInfinity else NegInfinity)
      else Num (a / b))"

definition jsTimes :: "jsnum \<Rightarrow> rat \<Rightarrow> jsnum" where
  "jsTimes x k = (case x of Num v \<Rightarrow> Num (v * k) | NaN \<Rightarrow> NaN
                  | PosInfinity \<Rightarrow> (if k > 0 then PosInfinity else if k < 0 then NegInfinity else NaN)
                  | NegInfinity \<Rightarrow> (if k > 0 then NegInfinity else if k < 0 then PosInfinity else NaN))"

definition jsToFixed :: "nat \<Rightarrow> jsnum \<Rightarrow> jsnum" where
  "jsToFixed d x = (case x of Num v \<Rightarrow> Num (toFixed d v) | NaN \<Rightarrow> NaN
                    | PosInfinity \<Rightarrow> PosInfinity | NegInfinity \<Rightarrow> NegInfinity)"

text \<open>
  \<^verbatim>\<open>x || d\<close> on an optional number and on an optional string: an absent value, the
  number 0 and the empty string are falsy.
\<close>

definition truthyNum :: "rat option \<Rightarrow> bool" where
  "truthyNum x = (case x of None \<Rightarrow> False | Some v \<Rightarrow> v \<noteq> 0)"

definition orNum :: "rat option \<Rightarrow> rat \<Rightarrow> rat" where
  "orNum x d = (case x of None \<Rightarrow> d | Some v \<Rightarrow> if v \<noteq> 0 then v else d)"

definition orStr :: "string option \<Rightarrow> string \<Rightarrow> string" where
  "orStr x d = (case x of None \<Rightarrow> d | Some v \<Rightarrow> if v \<noteq> [] then v else d)"

text \<open>The \<^verbatim>\<open>meta\<close> object of Yahoo's chart response; an absent property is \<open>None\<close>.\<close>

record yahooMeta =
  metaSymbol :: "string option"
  longName :: "string option"
  shortName :: "string option"
  regularMarketPrice :: "rat option"
  metaPreviousClose :: "rat option"
  regularMarketVolume :: "rat option"
  metaMarketCap :: "rat option"
  metaCurrency :: "string option"
  exchangeName :: "string option"
  trailingPE :: "rat option"
  trailingEps :: "rat option"

text \<open>The quote object that a primary fetch returns with \<^verbatim>\<open>success: true\<close>.\<close>

record quote =
  symbol :: "string option"
  name :: string
  currentPrice :: rat
  previousClose :: "rat option"
  change :: rat
  changePercent :: jsnum
  volume :: rat
  marketCap :: rat
  currency :: "string option"
  exchange :: "string option"

text \<open>
  The result of a primary fetch: \<^verbatim>\<open>{ success: true, ... }\<close>, or
  \<^verbatim>\<open>{ success: false, error: error.message }\<close>.
\<close>

datatype primaryResult = Success quote | Failure string

datatype yahooAnswer = YahooError string | YahooEmpty | YahooChart yahooMeta

record coinData =
  usd :: rat
  usd_24h_change :: "rat option"
  usd_market_cap :: "rat option"
  usd_24h_vol :: "rat option"

datatype coinAnswer = CoinError string | CoinMissing | Coin coinData

record profile =
  companyName :: string
  profileSector :: string

datatype profileAnswer = ProfileError string | NoProfile | Profile string "string option"

record marketService = financialService +
  yahooChart :: "string \<Rightarrow> yahooAnswer"
  coinGeckoPrice :: "string \<Rightarrow> coinAnswer"
  fmpProfile :: "string \<Rightarrow> profileAnswer"

definition cryptoSymbols :: "string list" where
  "cryptoSymbols = [''BTC'', ''ETH'', ''ADA'', ''SOL'', ''MATIC'', ''AVAX'', ''DOT'', ''LINK'',
                    ''UNI'', ''AAVE'', ''DOGE'', ''XRP'', ''LTC'', ''BCH'']"

definition etfSymbols :: "string list" where
  "etfSymbols = [''SPY'', ''QQQ'', ''VTI'', ''ARKK'', ''GLD'', ''TQQQ'', ''IWM'', ''EFA'', ''VEA'']"

definition detectAssetType :: "string \<Rightarrow> string" where
  "detectAssetType s =
     (if toUpperCase s \<in> set cryptoSymbols then ''crypto''
      else if toUpperCase s \<in> set etfSymbols then ''etf''
      else if startsWith s ''^'' then ''index''
      else ''stock'')"

definition convertToYahooSymbol :: "string \<Rightarrow> string" where
  "convertToYahooSymbol s =
     (if detectAssetType s = ''crypto'' then toUpperCase s @ ''-USD'' else toUpperCase s)"

text \<open>
  \<^verbatim>\<open>getYahooFinanceData\<close>. \<open>YahooError e\<close>: the request or the reading of the response
  raised with message \<open>e\<close>; \<open>YahooEmpty\<close>: the response has no \<^verbatim>\<open>chart.result[0]\<close>.
\<close>

definition getYahooFinanceData :: "('x marketService_scheme) \<Rightarrow> string \<Rightarrow> primaryResult" where
  "getYahooFinanceData svc symbol0 =
     (case yahooChart svc (convertToYahooSymbol symbol0) of
        YahooError e \<Rightarrow> Failure e
      | YahooEmpty \<Rightarrow> Failure ''Invalid Yahoo Finance response''
      | YahooChart meta \<Rightarrow>
          (let currentPrice0 = orNum (regularMarketPrice meta) (orNum (metaPreviousClose meta) 0);
               previousClose0 = orNum (metaPreviousClose meta) currentPrice0;
               change0 = currentPrice0 - previousClose0;
               changePercent0 = jsTimes (jsDivide change0 previousClose0) 100
           in Success
                \<lparr>symbol = metaSymbol meta,
                 name = orStr (longName meta) (orStr (shortName meta) symbol0),
                 currentPrice = currentPrice0,
                 previousClose = Some previousClose0,
                 change = change0,
                 changePercent = changePercent0,
                 volume = orNum (regularMarketVolume meta) 0,
                 marketCap = orNum (metaMarketCap meta) 0,
                 currency = Some (orStr (metaCurrency meta) ''USD''),
                 exchange = Some (orStr (exchangeName meta) ''Unknown'')\<rparr>))"

definition coinMap :: "(string \<times> string) list" where
  "coinMap =
     [(''BTC'', ''bitcoin''), (''ETH'', ''ethereum''), (''ADA'', ''cardano''), (''SOL'', ''solana''),
      (''MATIC'', ''matic-network''), (''AVAX'', ''avalanche-2''), (''DOT'', ''polkadot''),
      (''LINK'', ''chainlink''), (''UNI'', ''uniswap''), (''AAVE'', ''aave''), (''DOGE'', ''dogecoin''),
      (''XRP'', ''ripple''), (''LTC'', ''litecoin''), (''BCH'', ''bitcoin-cash'')]"

definition getCoinGeckoId :: "string \<Rightarrow> string" where
  "getCoinGeckoId s = (case map_of coinMap (toUpperCase s) of Some c \<Rightarrow> c | None \<Rightarrow> toLowerCase s)"

definition getCryptoData :: "('x marketService_scheme) \<Rightarrow> string \<Rightarrow> primaryResult" where
  "getCryptoData svc symbol0 =
     (case coinGeckoPrice svc (getCoinGeckoId symbol0) of
        CoinError e \<Rightarrow> Failure e
      | CoinMissing \<Rightarrow> Failure ''No crypto data available from CoinGecko''
      | Coin d \<Rightarrow>
          Success
            \<lparr>symbol = Some (toUpperCase symbol0),
             name = toUpperCase symbol0,
             currentPrice = usd d,
             previousClose = None,
             change = (if truthyNum (usd_24h_change d) then usd d * orNum (usd_24h_change d) 0 / 100 else 0),
             changePercent = Num (orNum (usd_24h_change d) 0),
             volume = orNum (usd_24h_vol d) 0,
             marketCap = orNum (usd_market_cap d) 0,
             currency = None,
             exchange = None\<rparr>)"

definition getFMPFundamentals :: "('x marketService_scheme) \<Rightarrow> string \<Rightarrow> profile option" where
  "getFMPFundamentals svc symbol0 =
     (if \<not> configured (fmpKey svc) then None
      else case fmpProfile svc symbol0 of
             ProfileError e \<Rightarrow> None
           | NoProfile \<Rightarrow> None
           | Profile cn sec \<Rightarrow> Some \<lparr>companyName = cn, profileSector = orStr sec ''Unknown''\<rparr>)"

section \<open>The endpoint POST /api/analyze of server.js\<close>

text \<open>
  The response: an error body \<^verbatim>\<open>{ error, details }\<close> under a status, or the analysis
  under status 200. Of the analysis the model keeps the fields below; \<^verbatim>\<open>chartData\<close>,
  \<^verbatim>\<open>fundamentals\<close> (random figures), \<^verbatim>\<open>timestamp\<close> and \<^verbatim>\<open>enhancedFeatures\<close> are left
  out, and the chart fetch, which returns the empty list on every error, with them.
\<close>

record analysis =
  analysisSymbol :: string
  company :: string
  analysisPrice :: rat
  priceChange :: rat
  priceChangePercent :: jsnum
  assetType :: string
  sector :: string
  sentimentSummary :: sentimentAnalysis
  earningsRecord :: earnings
  dataSource :: string

datatype response =
    ErrorResponse nat string "string option"
  | AnalysisResponse nat analysis

definition notApplicable :: earnings where
  "notApplicable = noEarnings\<lparr>message := Some ''Earnings not applicable for cryptocurrency''\<rparr>"

definition primaryFetch :: "('x marketService_scheme) \<Rightarrow> string \<Rightarrow> primaryResult" where
  "primaryFetch svc s =
     (if detectAssetType s = ''crypto'' then getCryptoData svc s else getYahooFinanceData svc s)"

definition analyzeRoute :: "('x marketService_scheme) \<Rightarrow> int \<Rightarrow> jsval \<Rightarrow> response" where
  "analyzeRoute svc now symbol0 =
     (if \<not> truthy symbol0 then ErrorResponse 400 ''Stock symbol is required'' None
      else case callToUpperCase symbol0 of
        Inl e \<Rightarrow> ErrorResponse 500 ''Internal server error during analysis'' (Some e)
      | Inr upper \<Rightarrow>
          (let s = toStr symbol0;
               assetType0 = detectAssetType s;
               (primaryData, fmpData, earningsData) =
                 (if assetType0 = ''crypto'' then (getCryptoData svc s, None, notApplicable)
                  else (getYahooFinanceData svc s, getFMPFundamentals svc s,
                        fst (getQuarterlyEarnings svc s [])))
           in case primaryData of
                Failure err \<Rightarrow>
                  ErrorResponse 500
                    (''Unable to fetch real market data for '' @ s
                       @ ''. Please check the symbol and try again.'')
                    (Some err)
              | Success q \<Rightarrow>
                  (case getComprehensiveNews svc now symbol0 of
                     Rejected e \<Rightarrow>
                       ErrorResponse 500 ''Internal server error during analysis'' (Some e)
                   | Fulfilled comprehensiveNews \<Rightarrow>
                       AnalysisResponse 200
                         \<lparr>analysisSymbol = upper,
                          company = (case fmpData of Some p \<Rightarrow> companyName p | None \<Rightarrow> name q),
                          analysisPrice = toFixed 2 (currentPrice q),
                          priceChange = toFixed 2 (change q),
                          priceChangePercent = jsToFixed 2 (changePercent q),
                          assetType = assetType0,
                          sector = (case fmpData of Some p \<Rightarrow> profileSector p
                                    | None \<Rightarrow> if assetType0 = ''crypto'' then ''CRYPTOCURRENCY''
                                               else ''Technology''),
                          sentimentSummary = calculateSentimentScore comprehensiveNews,
                          earningsRecord = earningsData,
                          dataSource = (if assetType0 = ''crypto'' then ''CoinGecko + Yahoo Finance''
                                        else ''Yahoo Finance + FMP + Multiple News Sources'')\<rparr>)))"

section \<open>The serverless handlers\<close>

text \<open>
  The JSON bodies of the two \<^verbatim>\<open>/api/analyze\<close> handlers (\<^verbatim>\<open>api/analyze.js\<close> and its
  other version, which labels its responses with a \<^verbatim>\<open>source\<close>). An object is the list
  of its properties; \<^verbatim>\<open>timestamp\<close> is the ISO string of the clock, an input.
\<close>

datatype json = JNull | JBool bool | JNum rat | JStr string | JArr "json list"
  | JObj "(string \<times> json) list"

datatype httpResponse = Json nat "(string \<times> json) list" | Empty nat

definition numOrNull :: "rat option \<Rightarrow> json" where
  "numOrNull x = (case x of None \<Rightarrow> JNull | Some v \<Rightarrow> JNum v)"

text \<open>
  What \<^verbatim>\<open>fetch\<close> of Yahoo's chart gives the handler: \<open>FetchFailed e\<close>, the request
  raised (network error, abort after the time-out); \<open>NotOk\<close>, a response whose status is
  not 2xx; \<open>BadJson e\<close>, a body that \<^verbatim>\<open>json()\<close> rejects; \<open>NoMeta\<close>, a body without
  \<^verbatim>\<open>chart.result[0].meta\<close>; \<open>Meta m\<close>, a body with it.
\<close>

datatype fetchAnswer = FetchFailed string | NotOk | BadJson string | NoMeta | Meta yahooMeta

subsection \<open>api/analyze.js\<close>

definition priceBlockOf :: "string \<Rightarrow> yahooMeta \<Rightarrow> (string \<times> json) list" where
  "priceBlockOf s meta =
     [(''symbol'', JStr (toUpperCase s)),
      (''company'', JStr (orStr (longName meta) (toUpperCase s @ '' Inc.''))),
      (''currentPrice'', numOrNull (regularMarketPrice meta)),
      (''previousClose'', numOrNull (metaPreviousClose meta)),
      (''priceChangePercent'',
         (case (metaPreviousClose meta, regularMarketPrice meta) of
            (Some pc, Some p) \<Rightarrow>
              if pc \<noteq> 0 \<and> p \<noteq> 0 then JNum ((p - pc) / pc * 100) else JNull
          | _ \<Rightarrow> JNull)),
      (''trailingPE'', numOrNull (trailingPE meta)),
      (''marketCap'', numOrNull (metaMarketCap meta)),
      (''trailingEps'', numOrNull (trailingEps meta))]"

definition mockPriceBlock :: "string \<Rightarrow> (string \<times> json) list" where
  "mockPriceBlock s =
     [(''symbol'', JStr (toUpperCase s)),
      (''company'', JStr (toUpperCase s @ '' Inc.'')),
      (''currentPrice'', JNum (15025 / 100)),
      (''previousClose'', JNum (14658 / 100)),
      (''priceChangePercent'', JNum (25 / 10)),
      (''trailingPE'', JNum (254 / 10)),
      (''marketCap'', JNum 2500000000000),
      (''trailingEps'', JNum (612 / 100))]"

definition mockWireNews :: "string \<Rightarrow> json list" where
  "mockWireNews s =
     [JObj [(''headline'', JStr (toUpperCase s @ '' shows strong quarterly results'')),
            (''source'', JStr ''MockWire'')],
      JObj [(''headline'', JStr (''Analysts upgrade '' @ toUpperCase s @ '' price target'')),
            (''source'', JStr ''MockWire'')]]"

definition analysisBody :: "(string \<times> json) list \<Rightarrow> string \<Rightarrow> string \<Rightarrow> (string \<times> json) list" where
  "analysisBody priceBlock s timestamp =
     priceBlock @
     [(''assetType'', JStr ''stock''),
      (''sector'', JStr ''Technology''),
      (''sentiment'', JObj [(''overall'', JStr ''neutral''), (''score'', JNum 0),
                            (''articles'', JArr (mockWireNews s))]),
      (''timestamp'', JStr timestamp)]"

definition analyzeHandler :: "string \<Rightarrow> jsval \<Rightarrow> fetchAnswer \<Rightarrow> string \<Rightarrow> httpResponse" where
  "analyzeHandler method symbol0 yfResp timestamp =
     (if method = ''OPTIONS'' then Empty 200
      else if method \<noteq> ''POST'' then
        Json 405 [(''error'', JStr ''Method not allowed''),
                  (''message'', JStr ''Only POST requests are allowed'')]
      else case symbol0 of
        JOther t r \<Rightarrow>
          Json 400 [(''error'', JStr ''Symbol required''),
                    (''message'', JStr ''Provide JSON body: { \"symbol\": \"AAPL\" }'')]
      | JString s \<Rightarrow>
          if s = [] then
            Json 400 [(''error'', JStr ''Symbol required''),
                      (''message'', JStr ''Provide JSON body: { \"symbol\": \"AAPL\" }'')]
          else case yfResp of
            FetchFailed e \<Rightarrow>
              Json 500 [(''error'', JStr ''Analysis failed''),
                        (''details'', JStr (''Price fetch failed: '' @ e))]
          | BadJson e \<Rightarrow>
              Json 500 [(''error'', JStr ''Analysis failed''), (''details'', JStr e)]
          | NotOk \<Rightarrow> Json 200 (analysisBody (mockPriceBlock s) s timestamp)
          | NoMeta \<Rightarrow> Json 200 (analysisBody (mockPriceBlock s) s timestamp)
          | Meta meta \<Rightarrow> Json 200 (analysisBody (priceBlockOf s meta) s timestamp))"

subsection \<open>The version of the handler that labels its source\<close>

text \<open>
  Its \<^verbatim>\<open>fetchPriceData\<close> raises on every failure and \<^verbatim>\<open>Promise.allSettled\<close> turns
  that into \<^verbatim>\<open>price = null\<close> (the message of the error is logged and not read again;
  the HTTP status that the source appends to it is left out);
  \<^verbatim>\<open>fetchNewsData\<close> returns a list (empty on failure).
\<close>

record priceData =
  priceRegularMarketPrice :: rat
  priceLongName :: string
  priceChangePercent0 :: jsnum
  priceTrailingPE :: rat
  priceMarketCap :: rat
  priceTrailingEps :: rat

definition jsonOfNumber :: "jsnum \<Rightarrow> json" where
  "jsonOfNumber x = (case x of Num v \<Rightarrow> JNum v | NaN \<Rightarrow> JNull
                     | PosInfinity \<Rightarrow> JNull | NegInfinity \<Rightarrow> JNull)"

definition fetchPriceData :: "fetchAnswer \<Rightarrow> priceData settled" where
  "fetchPriceData resp =
     (case resp of
        FetchFailed e \<Rightarrow> Rejected e
      | NotOk \<Rightarrow> Rejected ''Yahoo Finance API error''
      | BadJson e \<Rightarrow> Rejected e
      | NoMeta \<Rightarrow> Rejected ''Invalid response from Yahoo Finance''
      | Meta meta \<Rightarrow>
          Fulfilled
            \<lparr>priceRegularMarketPrice = orNum (regularMarketPrice meta) 0,
             priceLongName = orStr (longName meta) ''Unknown Company'',
             priceChangePercent0 =
               (if truthyNum (metaPreviousClose meta) then
                  (case regularMarketPrice meta of
                     Some p \<Rightarrow> jsTimes (jsDivide (p - orNum (metaPreviousClose meta) 0)
                                                  (orNum (metaPreviousClose meta) 0)) 100
                   | None \<Rightarrow> NaN)
                else Num 0),
             priceTrailingPE = orNum (trailingPE meta) 0,
             priceMarketCap = orNum (metaMarketCap meta) 0,
             priceTrailingEps = orNum (trailingEps meta) 0\<rparr>)"

definition labelledHandler :: "string \<Rightarrow> jsval \<Rightarrow> fetchAnswer \<Rightarrow> json list \<Rightarrow> string \<Rightarrow> httpResponse" where
  "labelledHandler method symbol0 resp news timestamp =
     (if method = ''OPTIONS'' then Empty 200
      else if method \<noteq> ''POST'' then
        Json 405 [(''error'', JStr ''Method not allowed''),
                  (''message'', JStr ''Only POST requests are allowed'')]
      else if \<not> truthy symbol0 then Json 400 [(''error'', JStr ''Symbol required'')]
      else case callToUpperCase symbol0 of
        Inl e \<Rightarrow> Json 500 [(''error'', JStr ''Unable to analyze symbol''), (''details'', JStr e)]
      | Inr upper \<Rightarrow>
          (case fetchPriceData resp of
             Rejected e \<Rightarrow>
               Json 200
                 [(''symbol'', JStr upper),
                  (''company'', JStr (upper @ '' Inc.'')),
                  (''currentPrice'', JNum (15025 / 100)),
                  (''priceChangePercent'', JNum (25 / 10)),
                  (''assetType'', JStr ''stock''),
                  (''sector'', JStr ''Technology''),
                  (''sentiment'',
                     JObj [(''overall'', JStr ''positive''), (''score'', JNum (75 / 100)),
                           (''articles'',
                              JArr [JObj [(''headline'', JStr (toStr symbol0 @ '' shows strong quarterly results''))],
                                    JObj [(''headline'', JStr (''Analysts upgrade '' @ toStr symbol0 @ '' price target''))]])]),
                  (''fundamentals'',
                     JObj [(''type'', JStr ''stock''), (''peRatio'', JNum (254 / 10)),
                           (''marketCap'', JNum (25005 / 10)), (''eps'', JNum (612 / 100)),
                           (''roe'', JNum (152 / 10))]),
                  (''timestamp'', JStr timestamp),
                  (''source'', JStr ''mock-fallback'')]
           | Fulfilled price \<Rightarrow>
               Json 200
                 [(''symbol'', JStr upper),
                  (''company'', JStr (orStr (Some (priceLongName price)) (upper @ '' Inc.''))),
                  (''currentPrice'', JNum (priceRegularMarketPrice price)),
                  (''priceChangePercent'', jsonOfNumber (priceChangePercent0 price)),
                  (''assetType'', JStr ''stock''),
                  (''sector'', JStr ''Technology''),
                  (''sentiment'',
                     JObj [(''overall'', JStr ''neutral''), (''score'', JNum 0),
                           (''articles'', JArr (take 3 news))]),
                  (''fundamentals'',
                     JObj [(''type'', JStr ''stock''),
                           (''peRatio'', JNum (orNum (Some (priceTrailingPE price)) 0)),
                           (''marketCap'', JNum (orNum (Some (priceMarketCap price)) 0 / 1000000000)),
                           (''eps'', JNum (orNum (Some (priceTrailingEps price)) 0)),
                           (''roe'', JNum (152 / 10))]),
                  (''timestamp'', JStr timestamp),
                  (''source'', JStr ''yahoo-finance'')]))"

subsection \<open>The version of the handler that uses axios\<close>

text \<open>
  Its \<^verbatim>\<open>fetchPriceData\<close> copies Yahoo's values as they are and computes the percentage
  without a test of the previous close: an absent operand makes the result NaN, a
  previous close of 0 makes it a division by zero. Every failure of the request or of
  the reading rejects the promise; the messages of these errors are not modelled.
\<close>

record rawPriceData =
  rawRegularMarketPrice :: "rat option"
  rawLongName :: "string option"
  rawChangePercent :: jsnum
  rawTrailingPE :: "rat option"
  rawMarketCap :: "rat option"
  rawTrailingEps :: "rat option"

definition fetchPriceData_axios :: "fetchAnswer \<Rightarrow> rawPriceData settled" where
  "fetchPriceData_axios resp =
     (case resp of
        FetchFailed e \<Rightarrow> Rejected e
      | NotOk \<Rightarrow> Rejected ''Request failed''
      | BadJson e \<Rightarrow> Rejected e
      | NoMeta \<Rightarrow> Rejected ''Cannot read properties of undefined''
      | Meta meta \<Rightarrow>
          Fulfilled
            \<lparr>rawRegularMarketPrice = regularMarketPrice meta,
             rawLongName = longName meta,
             rawChangePercent =
               (case (regularMarketPrice meta, metaPreviousClose meta) of
                  (Some p, Some pc) \<Rightarrow> jsTimes (jsDivide (p - pc) pc) 100
                | _ \<Rightarrow> NaN),
             rawTrailingPE = trailingPE meta,
             rawMarketCap = metaMarketCap meta,
             rawTrailingEps = trailingEps meta\<rparr>)"

text \<open>
  The marker the specification asks for: a property of the response that says where the
  figures come from.
\<close>

definition markerFields :: "string list" where
  "markerFields = [''source'', ''sourceTier'', ''dataSource'', ''isMock'', ''isEstimated'', ''mock'']"

definition hasMarker :: "(string \<times> json) list \<Rightarrow> bool" where
  "hasMarker body = (filter (\<lambda>k. k \<in> set markerFields) (map fst body) \<noteq> [])"

section \<open>Sample inputs\<close>

text \<open>Concrete articles and provider answers, for the evaluations below.\<close>

definition sampleArticle :: "string \<Rightarrow> string \<Rightarrow> string option \<Rightarrow> int option \<Rightarrow> published \<Rightarrow> string \<Rightarrow> article" where
  "sampleArticle h src tier sc date sent =
     \<lparr>headline = h, summary = ''No summary available'', source = src, url = None,
      publishedAt = date, sentiment = sent, impact = ''low'', relevanceScore = sc,
      category = Some ''general'', sourceTier = tier\<rparr>"

definition europeArticle :: article where
  "europeArticle =
     sampleArticle ''Apple Reports Record Quarterly Revenue As Services Grow In Europe''
       ''Finnhub Financial News'' (Some ''tier1'') (Some 15) (Parsed 1712700000000) ''positive''"

definition asiaArticle :: article where
  "asiaArticle =
     sampleArticle ''Apple Reports Record Quarterly Revenue As Services Grow In Asia''
       ''Polygon (Reuters)'' (Some ''tier1'') (Some 15) (Parsed 1712703600000) ''positive''"

text \<open>
  Three articles of equal score and tier: two from NewsAPI (source CNBC, tier2) with ISO
  dates, and one from Alpha Vantage (always tier2), published later than both, with the
  compact date that \<^verbatim>\<open>Date\<close> does not parse.
\<close>

definition cnbcOlder :: article where
  "cnbcOlder = sampleArticle ''Tesla earnings preview'' ''tier2'' (Some ''tier2'') (Some 15)
     (Parsed 1711929600000) ''neutral''"

definition cnbcNewer :: article where
  "cnbcNewer = sampleArticle ''Tesla earnings recap'' ''tier2'' (Some ''tier2'') (Some 15)
     (Parsed 1712016000000) ''neutral''"

definition alphaVantageLatest :: article where
  "alphaVantageLatest = sampleArticle ''Tesla earnings call'' ''Alpha Vantage (Benzinga)''
     (Some ''tier2'') (Some 15) (Unparsed 1712712600000) ''neutral''"


text \<open>
  A service in which only the Finnhub adapter succeeds, with five articles: no NewsAPI
  key, an Alpha Vantage request that times out, and a Polygon answer without results.
\<close>

definition fiveArticles :: "article list" where
  "fiveArticles =
     [sampleArticle ''Tesla deliveries fall short'' ''Finnhub Financial News'' (Some ''tier1'') (Some 10)
        (Parsed 1712000000000) ''negative'',
      sampleArticle ''Tesla earnings beat forecast'' ''Finnhub Financial News'' (Some ''tier1'') (Some 20)
        (Parsed 1712100000000) ''positive'',
      sampleArticle ''Tesla recalls vehicles'' ''Finnhub Financial News'' (Some ''tier1'') (Some 10)
        (Parsed 1712200000000) ''neutral'',
      sampleArticle ''Analysts weigh Tesla outlook'' ''Finnhub Financial News'' (Some ''tier1'') (Some 15)
        (Parsed 1712300000000) ''neutral'',
      sampleArticle ''Tesla CEO on revenue guidance'' ''Finnhub Financial News'' (Some ''tier1'') (Some 23)
        (Parsed 1712400000000) ''positive'']"

definition finnhubOnly :: newsService where
  "finnhubOnly =
     \<lparr>newsApiKey = None, finnhubKey = Some ''fh-key'', alphavantageKey = Some ''av-key'',
      polygonKey = Some ''pg-key'',
      newsApi = (\<lambda>c s. Unavailable ''Request failed with status code 401''),
      finnhub = (\<lambda>s. Articles fiveArticles),
      alphaVantageFeed = (\<lambda>s. Unavailable ''timeout of 10000ms exceeded''),
      polygonNews = (\<lambda>s. NoList)\<rparr>"

text \<open>
  A service with every key configured, in which every earnings provider answers with
  quarters, Yahoo has no chart for the symbols asked and CoinGecko does not answer.
\<close>

definition allProviders :: marketService where
  "allProviders =
     \<lparr>newsApiKey = Some ''news-key'', finnhubKey = Some ''fh-key'', alphavantageKey = Some ''av-key'',
      polygonKey = Some ''pg-key'',
      newsApi = (\<lambda>c s. Articles []),
      finnhub = (\<lambda>s. Articles fiveArticles),
      alphaVantageFeed = (\<lambda>s. NoList),
      polygonNews = (\<lambda>s. NoList),
      fmpKey = Some ''fmp-key'',
      fmpIncomeStatement = (\<lambda>s. Quarters 4),
      alphaVantageEarnings = (\<lambda>s. Quarters 8),
      polygonFinancials = (\<lambda>s. Quarters 4),
      yahooChart = (\<lambda>s. YahooEmpty),
      coinGeckoPrice = (\<lambda>s. CoinError ''timeout of 10000ms exceeded''),
      fmpProfile = (\<lambda>s. NoProfile)\<rparr>"

text \<open>
  Yahoo answers for the quote: a chart whose \<^verbatim>\<open>meta\<close> has a price and no previous close,
  one with neither, and a complete one.
\<close>

definition emptyMeta :: yahooMeta where
  "emptyMeta =
     \<lparr>metaSymbol = Some ''AAPL'', longName = Some ''Apple Inc.'', shortName = None,
      regularMarketPrice = None, metaPreviousClose = None, regularMarketVolume = None,
      metaMarketCap = None, metaCurrency = Some ''USD'', exchangeName = Some ''NMS'',
      trailingPE = None, trailingEps = None\<rparr>"

definition priceOnlyMeta :: yahooMeta where
  "priceOnlyMeta = emptyMeta\<lparr>regularMarketPrice := Some 150\<rparr>"

definition fullMeta :: yahooMeta where
  "fullMeta = emptyMeta\<lparr>regularMarketPrice := Some 150, metaPreviousClose := Some 120\<rparr>"

definition yahooAnswers :: "yahooMeta \<Rightarrow> marketService" where
  "yahooAnswers m = allProviders\<lparr>yahooChart := (\<lambda>s. YahooChart m)\<rparr>"

text \<open>
  Services in which one other news adapter alone succeeds, with the same five articles,
  while the requests of the three others fail.
\<close>

definition silentNews :: newsService where
  "silentNews =
     \<lparr>newsApiKey = Some ''news-key'', finnhubKey = Some ''fh-key'', alphavantageKey = Some ''av-key'',
      polygonKey = Some ''pg-key'',
      newsApi = (\<lambda>c s. Unavailable ''Request failed with status code 429''),
      finnhub = (\<lambda>s. Unavailable ''timeout of 10000ms exceeded''),
      alphaVantageFeed = (\<lambda>s. Unavailable ''timeout of 10000ms exceeded''),
      polygonNews = (\<lambda>s. Unavailable ''Request failed with status code 403'')\<rparr>"

definition newsApiOnly :: newsService where
  "newsApiOnly = silentNews\<lparr>newsApi := (\<lambda>c s. Articles fiveArticles)\<rparr>"

definition alphaVantageOnly :: newsService where
  "alphaVantageOnly = silentNews\<lparr>alphaVantageFeed := (\<lambda>s. Articles fiveArticles)\<rparr>"

definition polygonOnly :: newsService where
  "polygonOnly = silentNews\<lparr>polygonNews := (\<lambda>s. Articles fiveArticles)\<rparr>"


definition zeroPriceMeta :: yahooMeta where
  "zeroPriceMeta = emptyMeta\<lparr>regularMarketPrice := Some 0, metaPreviousClose := Some 120\<rparr>"

definition zeroCloseMeta :: yahooMeta where
  "zeroCloseMeta = emptyMeta\<lparr>regularMarketPrice := Some 150, metaPreviousClose := Some 0\<rparr>"

definition btcCoin :: coinData where
  "btcCoin = \<lparr>usd = 60000, usd_24h_change = Some 2, usd_market_cap = Some 1200000000000,
              usd_24h_vol = Some 30000000000\<rparr>"

definition coinAnswers :: "coinData \<Rightarrow> marketService" where
  "coinAnswers d = allProviders\<lparr>coinGeckoPrice := (\<lambda>s. Coin d)\<rparr>"

section \<open>Properties of the deduplication\<close>

lemma removeDuplicates_from_filter:
  "removeDuplicates_from (S \<union> T) xs = filter (\<lambda>b. dedupKey b \<notin> S) (removeDuplicates_from T xs)"
proof (induction xs arbitrary: T)
  case Nil
  show ?case by simp
next
  case (Cons a as)
  let ?k = "dedupKey a"
  have IH: "removeDuplicates_from (S \<union> insert ?k T) as =
      filter (\<lambda>b. dedupKey b \<notin> S) (removeDuplicates_from (insert ?k T) as)"
    by (rule Cons.IH)
  have ins: "insert ?k (S \<union> T) = S \<union> insert ?k T" by blast
  show ?case
  proof (cases "?k \<in> T")
    case True
    then show ?thesis by (simp add: Cons.IH)
  next
    case notT: False
    show ?thesis
    proof (cases "?k \<in> S")
      case True
      then have "S \<union> insert ?k T = S \<union> T" by blast
      with IH have "removeDuplicates_from (S \<union> T) as =
          filter (\<lambda>b. dedupKey b \<notin> S) (removeDuplicates_from (insert ?k T) as)"
        by simp
      with True notT show ?thesis by simp
    next
      case False
      have "removeDuplicates_from (S \<union> T) (a # as) = a # removeDuplicates_from (insert ?k (S \<union> T)) as"
        using False notT by simp
      also have "\<dots> = a # removeDuplicates_from (S \<union> insert ?k T) as"
        by (simp only: ins)
      also have "\<dots> = filter (\<lambda>b. dedupKey b \<notin> S) (removeDuplicates_from T (a # as))"
        using False notT by (simp only: IH) simp
      finally show ?thesis .
    qed
  qed
qed

lemma removeDuplicateArticles_Cons:
  "removeDuplicateArticles (a # as) =
     a # filter (\<lambda>c. dedupKey c \<noteq> dedupKey a) (removeDuplicateArticles as)"
  using removeDuplicates_from_filter [of "{dedupKey a}" "{}" as]
  by (simp add: removeDuplicateArticles_def)

lemma removeDuplicates_from_keys:
  "set (map dedupKey (removeDuplicates_from S xs)) = set (map dedupKey xs) - S"
  by (induction xs arbitrary: S) auto

lemma removeDuplicates_from_distinct:
  "distinct (map dedupKey (removeDuplicates_from S xs))"
proof (induction xs arbitrary: S)
  case Nil
  show ?case by simp
next
  case (Cons a as)
  have "dedupKey a \<notin> set (map dedupKey (removeDuplicates_from (insert (dedupKey a) S) as))"
    unfolding removeDuplicates_from_keys by blast
  with Cons.IH show ?case by simp
qed

lemma removeDuplicates_from_subseq: "subseq (removeDuplicates_from S xs) xs"
  by (induction xs arbitrary: S) auto

lemma removeDuplicates_from_length: "length (removeDuplicates_from S xs) \<le> length xs"
  by (induction xs arbitrary: S) (auto simp: le_SucI)

lemma removeDuplicates_from_distinct_keys:
  "distinct (map dedupKey xs) \<Longrightarrow> set (map dedupKey xs) \<inter> S = {}
     \<Longrightarrow> removeDuplicates_from S xs = xs"
  by (induction xs arbitrary: S) auto

lemma dedupKey_prefix:
  "take 50 (headline a) = take 50 (headline b) \<Longrightarrow> dedupKey a = dedupKey b"
  by (simp add: dedupKey_def substring0_def toLowerCase_def take_map)

lemma sample_keys:
  "dedupKey europeArticle = ''apple reports record quarterly revenue as services''"
  "dedupKey asiaArticle = ''apple reports record quarterly revenue as services''"
  by (simp_all add: dedupKey_def substring0_def toLowerCase_def lowerChar_def upperAlpha_def
      lowerAlpha_def europeArticle_def asiaArticle_def sampleArticle_def)

text \<open>
  C5, the claim as stated fails: the two sample headlines are equal up to character 59
  and differ only after it (\<open>Europe\<close> against \<open>Asia\<close>), and the second article is
  dropped, although it comes from another provider.
\<close>

theorem removeDuplicateArticles_after_50_counterexample:
  "take 50 (headline europeArticle) = take 50 (headline asiaArticle)
   \<and> headline europeArticle \<noteq> headline asiaArticle
   \<and> removeDuplicateArticles [europeArticle, asiaArticle] = [europeArticle]"
proof -
  have "take 50 (headline europeArticle) = take 50 (headline asiaArticle)"
    by (simp add: europeArticle_def asiaArticle_def sampleArticle_def)
  moreover have "headline europeArticle \<noteq> headline asiaArticle"
    by (simp add: europeArticle_def asiaArticle_def sampleArticle_def)
  moreover have "removeDuplicateArticles [europeArticle, asiaArticle] = [europeArticle]"
    by (simp add: removeDuplicateArticles_def sample_keys)
  ultimately show ?thesis by blast
qed

text \<open>
  C5, as amended: the key of an article is the first 50 characters of its lowercased
  headline. Of two articles, the second is dropped exactly when the keys are equal, and
  the first is always kept; headlines equal on their first 50 characters have equal keys,
  so articles that differ only after character 50 are deduplicated. In a list, the first
  article is kept and every later article with its key is dropped; the result has
  pairwise different keys, the same set of keys as the input, and is a subsequence of
  the input.
\<close>

theorem removeDuplicateArticles_first_seen:
  "removeDuplicateArticles [a, b] = (if dedupKey a = dedupKey b then [a] else [a, b])
   \<and> dedupKey a = take 50 (toLowerCase (headline a))
   \<and> (take 50 (headline a) = take 50 (headline b) \<longrightarrow> removeDuplicateArticles [a, b] = [a])
   \<and> removeDuplicateArticles (a # as) =
        a # filter (\<lambda>c. dedupKey c \<noteq> dedupKey a) (removeDuplicateArticles as)
   \<and> distinct (map dedupKey (removeDuplicateArticles xs))
   \<and> set (map dedupKey (removeDuplicateArticles xs)) = set (map dedupKey xs)
   \<and> subseq (removeDuplicateArticles xs) xs"
proof -
  have two: "removeDuplicateArticles [a, b] = (if dedupKey a = dedupKey b then [a] else [a, b])"
    by (simp add: removeDuplicateArticles_def)
  have key: "dedupKey a = take 50 (toLowerCase (headline a))"
    by (simp add: dedupKey_def substring0_def)
  have pre: "take 50 (headline a) = take 50 (headline b) \<longrightarrow> removeDuplicateArticles [a, b] = [a]"
    using two dedupKey_prefix [of a b] by simp
  have dist: "distinct (map dedupKey (removeDuplicateArticles xs))"
    unfolding removeDuplicateArticles_def by (rule removeDuplicates_from_distinct)
  have keys: "set (map dedupKey (removeDuplicateArticles xs)) = set (map dedupKey xs)"
    unfolding removeDuplicateArticles_def removeDuplicates_from_keys by simp
  have sub: "subseq (removeDuplicateArticles xs) xs"
    unfolding removeDuplicateArticles_def by (rule removeDuplicates_from_subseq)
  from two key pre removeDuplicateArticles_Cons [of a as] dist keys sub show ?thesis
    by blast
qed

theorem removeDuplicateArticles_first_seen_witness:
  "removeDuplicateArticles [europeArticle, asiaArticle] = [europeArticle]
   \<and> removeDuplicateArticles [asiaArticle, europeArticle] = [asiaArticle]
   \<and> distinct (map dedupKey (removeDuplicateArticles [europeArticle, asiaArticle, europeArticle]))"
  using removeDuplicateArticles_first_seen [of europeArticle asiaArticle "[]" "[europeArticle, asiaArticle, europeArticle]"]
    removeDuplicateArticles_first_seen [of asiaArticle europeArticle "[]" "[]"]
  by (simp add: sample_keys)

section \<open>Properties of the relevance score\<close>









section \<open>Properties of the ranking\<close>

lemma keyGreater_asym: "keyGreater k1 k2 \<Longrightarrow> \<not> keyGreater k2 k1"
  by (cases k1; cases k2) auto

lemma keyGE_trans: "\<not> keyGreater k2 k1 \<Longrightarrow> \<not> keyGreater k3 k2 \<Longrightarrow> \<not> keyGreater k3 k1"
  by (cases k1; cases k2; cases k3) auto

lemma notAfter_wellDated:
  assumes "wellDated a" "wellDated b"
  shows "notAfter compareArticles a b = (\<not> rankedBefore b a)"
proof -
  from assms obtain sa sb ta tb where f:
    "relevanceScore a = Some sa" "relevanceScore b = Some sb"
    "publishedAt a = Parsed ta" "publishedAt b = Parsed tb"
    by (auto simp: wellDated_def timeValue_def split: published.splits)
  show ?thesis
    by (auto simp: notAfter_def compareArticles_def jsMinus_def rankedBefore_def rankKey_def
        f timeValue_def instant_def Let_def)
qed

lemma set_insertSorted: "set (insertSorted cmp x xs) = insert x (set xs)"
  by (induction xs) auto

lemma mset_insertSorted: "mset (insertSorted cmp x xs) = add_mset x (mset xs)"
  by (induction xs) auto

lemma mset_arraySort: "mset (arraySort cmp xs) = mset xs"
  by (induction xs) (auto simp: arraySort_def mset_insertSorted)

lemma length_arraySort: "length (arraySort cmp xs) = length xs"
  using mset_arraySort [of cmp xs] by (metis size_mset)

lemma sorted_insertSorted:
  assumes "wellDated x" "\<forall>y\<in>set xs. wellDated y"
    and "sorted_wrt (\<lambda>a b. \<not> rankedBefore b a) xs"
  shows "sorted_wrt (\<lambda>a b. \<not> rankedBefore b a) (insertSorted compareArticles x xs)"
  using assms
proof (induction xs)
  case Nil
  show ?case by simp
next
  case (Cons y ys)
  show ?case
  proof (cases "notAfter compareArticles x y")
    case True
    then have xy: "\<not> rankedBefore y x"
      using notAfter_wellDated [of x y] Cons.prems by simp
    have "\<forall>z\<in>set ys. \<not> rankedBefore z x"
    proof
      fix z assume "z \<in> set ys"
      with Cons.prems(3) have "\<not> rankedBefore z y" by simp
      with xy show "\<not> rankedBefore z x"
        unfolding rankedBefore_def using keyGE_trans by blast
    qed
    with True xy Cons.prems(3) show ?thesis by simp
  next
    case False
    then have "rankedBefore y x"
      using notAfter_wellDated [of x y] Cons.prems by simp
    then have yx: "\<not> rankedBefore x y"
      unfolding rankedBefore_def by (rule keyGreater_asym)
    have "sorted_wrt (\<lambda>a b. \<not> rankedBefore b a) (insertSorted compareArticles x ys)"
      using Cons by simp
    with False yx Cons.prems(3) show ?thesis
      by (auto simp: set_insertSorted)
  qed
qed

lemma sorted_arraySort:
  "\<forall>y\<in>set xs. wellDated y \<Longrightarrow>
     sorted_wrt (\<lambda>a b. \<not> rankedBefore b a) (arraySort compareArticles xs)"
proof (induction xs)
  case Nil
  show ?case by (simp add: arraySort_def)
next
  case (Cons x xs)
  have "\<forall>y\<in>set (arraySort compareArticles xs). wellDated y"
    using Cons.prems mset_arraySort [of compareArticles xs] by (metis list.set_intros(2) set_mset_mset)
  with Cons show ?case
    using sorted_insertSorted [of x "arraySort compareArticles xs"]
    by (simp add: arraySort_def)
qed

text \<open>
  On articles that all carry a score and a date that \<^verbatim>\<open>Date\<close> parses, the comparator is
  consistent and the result is ranked as the specification says: it is a permutation of
  the input in which no article comes after one that it must precede.
\<close>

lemma sortArticlesByRelevance_ranked:
  assumes "\<forall>a\<in>set xs. wellDated a"
  shows "mset (sortArticlesByRelevance xs sy) = mset xs"
    and "sorted_wrt (\<lambda>a b. \<not> rankedBefore b a) (sortArticlesByRelevance xs sy)"
  using assms by (simp_all add: sortArticlesByRelevance_def mset_arraySort sorted_arraySort)

text \<open>
  C6, evaluated where the code departs from the claim. The Alpha Vantage article has the
  score and the tier weight of the two NewsAPI articles and is the most recent of the
  three, so the claim puts it first; its date does not parse, every comparison with it
  yields NaN, and it stays where the concatenation of the adapter results put it, behind
  the older article. With it between them, the newer NewsAPI article does not overtake
  the older one either.
\<close>

theorem sortArticlesByRelevance_unparsed_date:
  "sortArticlesByRelevance [cnbcOlder, alphaVantageLatest] ''TSLA'' = [cnbcOlder, alphaVantageLatest]
   \<and> rankedBefore alphaVantageLatest cnbcOlder
   \<and> sortArticlesByRelevance [cnbcOlder, alphaVantageLatest, cnbcNewer] ''TSLA''
       = [cnbcOlder, alphaVantageLatest, cnbcNewer]
   \<and> rankedBefore cnbcNewer cnbcOlder"
  by (simp add: sortArticlesByRelevance_def arraySort_def notAfter_def compareArticles_def
      jsMinus_def rankedBefore_def rankKey_def instant_def timeValue_def tierWeight_def
      cnbcOlder_def cnbcNewer_def alphaVantageLatest_def sampleArticle_def)

section \<open>Properties of the sentiment aggregate\<close>

lemma fold_countSentiment:
  "fold countSentiment xs d =
     \<lparr>positive = positive d + positiveCount xs,
      negative = negative d + negativeCount xs,
      neutral = neutral d + neutralCount xs\<rparr>"
  by (induction xs arbitrary: d)
    (auto simp: countSentiment_def positiveCount_def negativeCount_def neutralCount_def)

lemma distribution_calculateSentimentScore:
  "distribution (calculateSentimentScore xs) =
     \<lparr>positive = positiveCount xs, negative = negativeCount xs, neutral = neutralCount xs\<rparr>"
  by (simp add: calculateSentimentScore_def Let_def fold_countSentiment)

lemma rawScore_formula:
  "rawScore (fold countSentiment xs \<lparr>positive = 0, negative = 0, neutral = 0\<rparr>) (length xs)
     = scoreFormula xs"
  by (simp add: rawScore_def scoreFormula_def fold_countSentiment)

lemma score_calculateSentimentScore:
  "score (calculateSentimentScore xs) = toFixed 1 (scoreFormula xs)"
  by (simp add: calculateSentimentScore_def Let_def rawScore_formula)

lemma overall_calculateSentimentScore:
  "overall (calculateSentimentScore xs) =
     (if scoreFormula xs > 20 then ''positive''
      else if scoreFormula xs < - 20 then ''negative'' else ''neutral'')"
  by (simp add: calculateSentimentScore_def Let_def rawScore_formula overallLabel_def)

lemma toFixed_values:
  "toFixed 1 0 = 0" "toFixed 1 25 = 25" "toFixed 1 (100 / 3) = 333 / 10"
  by code_simp+

lemmas toFixed_values_Suc = toFixed_values [unfolded One_nat_def]

lemma four_labels:
  assumes "map sentiment xs = [''positive'', ''positive'', ''negative'', ''neutral'']"
  shows "positiveCount xs = 2 \<and> negativeCount xs = 1 \<and> neutralCount xs = 1 \<and> length xs = 4"
proof -
  from assms obtain a b c d where "xs = [a, b, c, d]"
    and "sentiment a = ''positive''" "sentiment b = ''positive''"
    and "sentiment c = ''negative''" "sentiment d = ''neutral''"
    by (auto simp: map_eq_Cons_conv)
  then show ?thesis
    by (simp add: positiveCount_def negativeCount_def neutralCount_def)
qed

lemma three_labels_counts:
  "positiveCount [europeArticle, cnbcOlder, cnbcNewer] = 1"
  "negativeCount [europeArticle, cnbcOlder, cnbcNewer] = 0"
  by (simp_all add: positiveCount_def negativeCount_def europeArticle_def cnbcOlder_def
      cnbcNewer_def sampleArticle_def)

text \<open>
  C8, the claim as stated fails: the reported score is not the value of the formula. For
  one positive and two neutral articles the formula gives \<open>100 / 3\<close>, and the function
  reports \<open>33.3\<close>.
\<close>

theorem calculateSentimentScore_rounded_counterexample:
  "scoreFormula [europeArticle, cnbcOlder, cnbcNewer] = (1 - 0) / 3 * 100
   \<and> score (calculateSentimentScore [europeArticle, cnbcOlder, cnbcNewer]) = 333 / 10
   \<and> score (calculateSentimentScore [europeArticle, cnbcOlder, cnbcNewer])
       \<noteq> scoreFormula [europeArticle, cnbcOlder, cnbcNewer]"
proof -
  have f: "scoreFormula [europeArticle, cnbcOlder, cnbcNewer] = 100 / 3"
    by (simp add: scoreFormula_def three_labels_counts)
  then have "score (calculateSentimentScore [europeArticle, cnbcOlder, cnbcNewer]) = 333 / 10"
    by (simp only: score_calculateSentimentScore toFixed_values)
  with f show ?thesis by simp
qed

text \<open>
  C8, as amended: the function reports the numbers of articles labelled positive and
  negative and of all other articles as neutral; it computes
  \<open>(positiveCount - negativeCount) / totalArticles * 100\<close> (0 for the empty list),
  labels the whole \<open>positive\<close> when that value is above 20, \<open>negative\<close> when it is below
  -20 and \<open>neutral\<close> otherwise, and reports as score that value rounded to one decimal.
  The empty list yields score 0 and label neutral; the labels positive, positive,
  negative, neutral yield the distribution 2, 1, 1, the score 25 and the label positive.
\<close>

theorem calculateSentimentScore_summary:
  "distribution (calculateSentimentScore xs) =
     \<lparr>positive = positiveCount xs, negative = negativeCount xs, neutral = neutralCount xs\<rparr>
   \<and> score (calculateSentimentScore xs) = toFixed 1 (scoreFormula xs)
   \<and> overall (calculateSentimentScore xs) =
       (if scoreFormula xs > 20 then ''positive''
        else if scoreFormula xs < - 20 then ''negative'' else ''neutral'')
   \<and> articles (calculateSentimentScore xs) = xs
   \<and> score (calculateSentimentScore []) = 0
   \<and> overall (calculateSentimentScore []) = ''neutral''
   \<and> (map sentiment xs = [''positive'', ''positive'', ''negative'', ''neutral'']
        \<longrightarrow> distribution (calculateSentimentScore xs) = \<lparr>positive = 2, negative = 1, neutral = 1\<rparr>
          \<and> score (calculateSentimentScore xs) = 25
          \<and> overall (calculateSentimentScore xs) = ''positive'')"
proof -
  have arts: "articles (calculateSentimentScore xs) = xs"
    by (simp add: calculateSentimentScore_def Let_def)
  have e1: "score (calculateSentimentScore []) = 0"
    by (simp add: score_calculateSentimentScore scoreFormula_def toFixed_values_Suc)
  have e2: "overall (calculateSentimentScore []) = ''neutral''"
    by (simp add: overall_calculateSentimentScore scoreFormula_def)
  have ex: "distribution (calculateSentimentScore xs) = \<lparr>positive = 2, negative = 1, neutral = 1\<rparr>
          \<and> score (calculateSentimentScore xs) = 25
          \<and> overall (calculateSentimentScore xs) = ''positive''"
    if h: "map sentiment xs = [''positive'', ''positive'', ''negative'', ''neutral'']"
  proof -
    from four_labels [OF h] have c: "positiveCount xs = 2" "negativeCount xs = 1"
      "neutralCount xs = 1" "length xs = 4" by simp_all
    from c(4) have ne: "xs \<noteq> []" by auto
    have f: "scoreFormula xs = 25" by (simp add: scoreFormula_def ne c)
    show ?thesis
      by (simp add: distribution_calculateSentimentScore score_calculateSentimentScore
          overall_calculateSentimentScore f c toFixed_values_Suc)
  qed
  from arts e1 e2 ex distribution_calculateSentimentScore [of xs]
    score_calculateSentimentScore [of xs] overall_calculateSentimentScore [of xs]
  show ?thesis by blast
qed

theorem calculateSentimentScore_summary_witness:
  "distribution (calculateSentimentScore [europeArticle, asiaArticle, alphaVantageLatest])
     = \<lparr>positive = 2, negative = 0, neutral = 1\<rparr>
   \<and> articles (calculateSentimentScore [europeArticle, asiaArticle, alphaVantageLatest])
     = [europeArticle, asiaArticle, alphaVantageLatest]
   \<and> score (calculateSentimentScore []) = 0"
  using calculateSentimentScore_summary [of "[europeArticle, asiaArticle, alphaVantageLatest]"]
  by (simp add: positiveCount_def negativeCount_def neutralCount_def europeArticle_def
      asiaArticle_def alphaVantageLatest_def sampleArticle_def)

section \<open>Properties of the news fan-out\<close>

lemma fold_appendSettled:
  "fold appendSettled (map (\<lambda>as. Fulfilled (Some as)) ls) acc = acc @ concat ls"
  by (induction ls arbitrary: acc) (auto simp: appendSettled_def)

lemma reconcile_fulfilled:
  "reconcile (map (\<lambda>as. Fulfilled (Some as)) ls) s =
     take 25 (sortArticlesByRelevance (removeDuplicateArticles (concat ls)) s)"
  by (simp add: reconcile_def Let_def fold_appendSettled)

lemma comprehensiveNewsBody_string:
  "comprehensiveNewsBody svc (JString s) =
     Inr (take 25 (sortArticlesByRelevance (removeDuplicateArticles (concat (adapterLists svc s))) s))"
  by (simp add: comprehensiveNewsBody_def callToUpperCase_def toStr_def Let_def reconcile_fulfilled)

lemma comprehensiveNewsBody_other:
  "comprehensiveNewsBody svc (JOther t r) = Inl ''symbol.toUpperCase is not a function''"
  by (simp add: comprehensiveNewsBody_def callToUpperCase_def)

lemma concat_single:
  assumes "length ls = 4" "i < 4" "\<forall>j<4. j \<noteq> i \<longrightarrow> ls ! j = []"
  shows "concat ls = ls ! i"
proof -
  from assms(1) obtain a b c d where ls: "ls = [a, b, c, d]"
    by (auto simp: length_Suc_conv numeral_eq_Suc)
  from assms(2) consider "i = 0" | "i = 1" | "i = 2" | "i = 3" by linarith
  then show ?thesis
  proof cases
    case 1
    with assms(3) [rule_format, of 1] assms(3) [rule_format, of 2] assms(3) [rule_format, of 3]
    show ?thesis by (simp add: ls)
  next
    case 2
    with assms(3) [rule_format, of 0] assms(3) [rule_format, of 2] assms(3) [rule_format, of 3]
    show ?thesis by (simp add: ls)
  next
    case 3
    with assms(3) [rule_format, of 0] assms(3) [rule_format, of 1] assms(3) [rule_format, of 3]
    show ?thesis by (simp add: ls)
  next
    case 4
    with assms(3) [rule_format, of 0] assms(3) [rule_format, of 1] assms(3) [rule_format, of 2]
    show ?thesis by (simp add: ls)
  qed
qed

lemma removeDuplicateArticles_nonempty: "xs \<noteq> [] \<Longrightarrow> removeDuplicateArticles xs \<noteq> []"
  by (cases xs) (simp_all add: removeDuplicateArticles_Cons)

lemma sortArticlesByRelevance_nonempty: "xs \<noteq> [] \<Longrightarrow> sortArticlesByRelevance xs s \<noteq> []"
  using length_arraySort [of compareArticles xs] by (auto simp: sortArticlesByRelevance_def)

lemma pipeline_nonempty:
  "xs \<noteq> [] \<Longrightarrow> take 25 (sortArticlesByRelevance (removeDuplicateArticles xs) s) \<noteq> []"
  using sortArticlesByRelevance_nonempty [OF removeDuplicateArticles_nonempty, of xs s] by simp

lemma pipeline_all_kept:
  assumes "distinct (map dedupKey xs)" "length xs \<le> 25"
  shows "mset (take 25 (sortArticlesByRelevance (removeDuplicateArticles xs) s)) = mset xs"
proof -
  have d: "removeDuplicateArticles xs = xs"
    unfolding removeDuplicateArticles_def using assms(1)
    by (intro removeDuplicates_from_distinct_keys) simp_all
  have "length (sortArticlesByRelevance xs s) \<le> 25"
    using assms(2) by (simp add: sortArticlesByRelevance_def length_arraySort)
  then show ?thesis by (simp add: d sortArticlesByRelevance_def mset_arraySort)
qed

lemma adapter_failures:
  "\<not> configured (newsApiKey svc) \<or> newsApi svc c s = Unavailable e \<Longrightarrow> getNewsAPIArticles svc c s = []"
  "\<not> configured (finnhubKey svc) \<or> finnhub svc (toUpperCase s) = Unavailable e \<Longrightarrow> getFinnhubNews svc s = []"
  "\<not> configured (alphavantageKey svc) \<or> alphaVantageFeed svc (toUpperCase s) = Unavailable e \<Longrightarrow> getAlphaVantageNews svc s = []"
  "\<not> configured (polygonKey svc) \<or> polygonNews svc (toUpperCase s) = Unavailable e \<Longrightarrow> getPolygonNews svc s = []"
  by (auto simp: getNewsAPIArticles_def getFinnhubNews_def getAlphaVantageNews_def getPolygonNews_def)

lemma fiveArticles_ranked:
  "take 25 (sortArticlesByRelevance (removeDuplicateArticles fiveArticles) ''TSLA'')
     = map (\<lambda>i. fiveArticles ! i) [4, 1, 3, 2, 0]"
  by code_simp

lemma set_removeDuplicates_from: "set (removeDuplicates_from S xs) \<subseteq> set xs"
  by (induction xs arbitrary: S) auto

lemma pipeline_subset:
  "set (take 25 (sortArticlesByRelevance (removeDuplicateArticles xs) s)) \<subseteq> set xs"
proof -
  have "set (sortArticlesByRelevance (removeDuplicateArticles xs) s) = set (removeDuplicateArticles xs)"
    using mset_arraySort [of compareArticles "removeDuplicateArticles xs"]
    by (metis sortArticlesByRelevance_def set_mset_mset)
  moreover have "set (removeDuplicateArticles xs) \<subseteq> set xs"
    by (simp add: removeDuplicateArticles_def set_removeDuplicates_from)
  ultimately show ?thesis
    using set_take_subset [of 25 "sortArticlesByRelevance (removeDuplicateArticles xs) s"] by blast
qed

lemma adapter_successes:
  "configured (newsApiKey svc) \<and> newsApi svc c s = Articles as \<Longrightarrow> getNewsAPIArticles svc c s = as"
  "configured (finnhubKey svc) \<and> finnhub svc (toUpperCase s) = Articles as \<Longrightarrow> getFinnhubNews svc s = take 15 as"
  "configured (alphavantageKey svc) \<and> alphaVantageFeed svc (toUpperCase s) = Articles as \<Longrightarrow> getAlphaVantageNews svc s = as"
  "configured (polygonKey svc) \<and> polygonNews svc (toUpperCase s) = Articles as \<Longrightarrow> getPolygonNews svc s = as"
  by (auto simp: getNewsAPIArticles_def getFinnhubNews_def getAlphaVantageNews_def getPolygonNews_def)

lemma adapter_no_list:
  "newsApi svc c s = NoList \<Longrightarrow> getNewsAPIArticles svc c s = []"
  "finnhub svc (toUpperCase s) = NoList \<Longrightarrow> getFinnhubNews svc s = []"
  "alphaVantageFeed svc (toUpperCase s) = NoList \<Longrightarrow> getAlphaVantageNews svc s = []"
  "polygonNews svc (toUpperCase s) = NoList \<Longrightarrow> getPolygonNews svc s = []"
  by (auto simp: getNewsAPIArticles_def getFinnhubNews_def getAlphaVantageNews_def getPolygonNews_def)

lemma length_fiveArticles: "length fiveArticles = 5"
  by (simp add: fiveArticles_def)

lemma only_lists:
  "getNewsAPIArticles newsApiOnly c ''TSLA'' = fiveArticles"
  "getFinnhubNews newsApiOnly ''TSLA'' = []"
  "getAlphaVantageNews newsApiOnly ''TSLA'' = []"
  "getPolygonNews newsApiOnly ''TSLA'' = []"
  "getNewsAPIArticles finnhubOnly c ''TSLA'' = []"
  "getFinnhubNews finnhubOnly ''TSLA'' = fiveArticles"
  "getAlphaVantageNews finnhubOnly ''TSLA'' = []"
  "getPolygonNews finnhubOnly ''TSLA'' = []"
  "getNewsAPIArticles alphaVantageOnly c ''TSLA'' = []"
  "getFinnhubNews alphaVantageOnly ''TSLA'' = []"
  "getAlphaVantageNews alphaVantageOnly ''TSLA'' = fiveArticles"
  "getPolygonNews alphaVantageOnly ''TSLA'' = []"
  "getNewsAPIArticles polygonOnly c ''TSLA'' = []"
  "getFinnhubNews polygonOnly ''TSLA'' = []"
  "getAlphaVantageNews polygonOnly ''TSLA'' = []"
  "getPolygonNews polygonOnly ''TSLA'' = fiveArticles"
  by (simp_all add: newsApiOnly_def alphaVantageOnly_def polygonOnly_def silentNews_def finnhubOnly_def
      getNewsAPIArticles_def getFinnhubNews_def getAlphaVantageNews_def getPolygonNews_def
      configured_def length_fiveArticles)

lemma one_list_delivered:
  assumes all: "result = Fulfilled (take 25 (sortArticlesByRelevance
                   (removeDuplicateArticles (concat ls)) s))"
    and len: "length ls = 4"
    and h: "i < 4 \<and> (\<forall>j<4. j \<noteq> i \<longrightarrow> ls ! j = [])"
  shows "\<exists>ys. result = Fulfilled ys
           \<and> ys = take 25 (sortArticlesByRelevance (removeDuplicateArticles (ls ! i)) s)
           \<and> set ys \<subseteq> set (ls ! i) \<and> length ys \<le> 25
           \<and> (ls ! i \<noteq> [] \<longrightarrow> ys \<noteq> [])
           \<and> (distinct (map dedupKey (ls ! i)) \<and> length (ls ! i) \<le> 25
                 \<longrightarrow> mset ys = mset (ls ! i))"
proof -
  from h have c: "concat ls = ls ! i"
    using concat_single [OF len, of i] by blast
  show ?thesis
    unfolding all c
    using pipeline_nonempty [of "ls ! i" s] pipeline_all_kept [of "ls ! i" s]
      pipeline_subset [of "ls ! i" s]
    by simp
qed

text \<open>
  C4: the four adapters are all called and all awaited, and the result is always the
  first 25 of the ranked, deduplicated concatenation of what NewsAPI, Finnhub, Alpha
  Vantage and Polygon returned, in this order. An adapter with a key whose provider
  answers with articles returns them (Finnhub the first 15); an adapter without a key, or
  whose provider is unavailable or answers without a list, returns the empty list and
  takes nothing from the others. When three of the four adapters return the empty list,
  the result is made of the articles of the fourth alone: each returned article is one
  of them, the result is not empty when the adapter returned an article, and it is a
  permutation of the adapter's articles when they have different keys and are at most
  25. (The dates of one adapter's articles either all parse or all fail to parse, so on
  them the comparator is consistent and the ranked order does not depend on the engine.)
\<close>

theorem getComprehensiveNews_settle_all:
  "getComprehensiveNews svc now (JString s) =
     Fulfilled (take 25 (sortArticlesByRelevance
       (removeDuplicateArticles
          (getNewsAPIArticles svc (companyNameOf s) s @ getFinnhubNews svc s
             @ getAlphaVantageNews svc s @ getPolygonNews svc s)) s))
   \<and> (configured (newsApiKey svc) \<and> newsApi svc (companyNameOf s) s = Articles as
        \<longrightarrow> getNewsAPIArticles svc (companyNameOf s) s = as)
   \<and> (configured (finnhubKey svc) \<and> finnhub svc (toUpperCase s) = Articles as
        \<longrightarrow> getFinnhubNews svc s = take 15 as)
   \<and> (configured (alphavantageKey svc) \<and> alphaVantageFeed svc (toUpperCase s) = Articles as
        \<longrightarrow> getAlphaVantageNews svc s = as)
   \<and> (configured (polygonKey svc) \<and> polygonNews svc (toUpperCase s) = Articles as
        \<longrightarrow> getPolygonNews svc s = as)
   \<and> (\<not> configured (newsApiKey svc) \<or> newsApi svc (companyNameOf s) s = Unavailable e
        \<or> newsApi svc (companyNameOf s) s = NoList
        \<longrightarrow> getNewsAPIArticles svc (companyNameOf s) s = [])
   \<and> (\<not> configured (finnhubKey svc) \<or> finnhub svc (toUpperCase s) = Unavailable e
        \<or> finnhub svc (toUpperCase s) = NoList
        \<longrightarrow> getFinnhubNews svc s = [])
   \<and> (\<not> configured (alphavantageKey svc) \<or> alphaVantageFeed svc (toUpperCase s) = Unavailable e
        \<or> alphaVantageFeed svc (toUpperCase s) = NoList
        \<longrightarrow> getAlphaVantageNews svc s = [])
   \<and> (\<not> configured (polygonKey svc) \<or> polygonNews svc (toUpperCase s) = Unavailable e
        \<or> polygonNews svc (toUpperCase s) = NoList
        \<longrightarrow> getPolygonNews svc s = [])
   \<and> (i < 4
        \<and> (\<forall>j<4. j \<noteq> i \<longrightarrow>
               [getNewsAPIArticles svc (companyNameOf s) s, getFinnhubNews svc s,
                  getAlphaVantageNews svc s, getPolygonNews svc s] ! j = [])
        \<longrightarrow>
        (\<exists>ys. getComprehensiveNews svc now (JString s) = Fulfilled ys
           \<and> ys = take 25 (sortArticlesByRelevance (removeDuplicateArticles
                   ([getNewsAPIArticles svc (companyNameOf s) s, getFinnhubNews svc s,
                  getAlphaVantageNews svc s, getPolygonNews svc s] ! i)) s)
           \<and> set ys \<subseteq> set ([getNewsAPIArticles svc (companyNameOf s) s, getFinnhubNews svc s,
                  getAlphaVantageNews svc s, getPolygonNews svc s] ! i)
           \<and> length ys \<le> 25
           \<and> ([getNewsAPIArticles svc (companyNameOf s) s, getFinnhubNews svc s,
                  getAlphaVantageNews svc s, getPolygonNews svc s] ! i \<noteq> [] \<longrightarrow> ys \<noteq> [])
           \<and> (distinct (map dedupKey ([getNewsAPIArticles svc (companyNameOf s) s, getFinnhubNews svc s,
                  getAlphaVantageNews svc s, getPolygonNews svc s] ! i))
                \<and> length ([getNewsAPIArticles svc (companyNameOf s) s, getFinnhubNews svc s,
                  getAlphaVantageNews svc s, getPolygonNews svc s] ! i) \<le> 25
                \<longrightarrow> mset ys = mset ([getNewsAPIArticles svc (companyNameOf s) s, getFinnhubNews svc s,
                  getAlphaVantageNews svc s, getPolygonNews svc s] ! i))))"
proof -
  let ?ls = "[getNewsAPIArticles svc (companyNameOf s) s, getFinnhubNews svc s,
             getAlphaVantageNews svc s, getPolygonNews svc s]"
  have ls: "adapterLists svc s = ?ls"
    by (simp add: adapterLists_def)
  have all: "getComprehensiveNews svc now (JString s) =
     Fulfilled (take 25 (sortArticlesByRelevance (removeDuplicateArticles (concat ?ls)) s))"
    by (simp only: getComprehensiveNews_def comprehensiveNewsBody_string ls sum.case)
  have len: "length ?ls = 4" by simp
  have cat: "concat ?ls = getNewsAPIArticles svc (companyNameOf s) s @ getFinnhubNews svc s
             @ getAlphaVantageNews svc s @ getPolygonNews svc s"
    by simp
  have c1: "getComprehensiveNews svc now (JString s) =
     Fulfilled (take 25 (sortArticlesByRelevance
       (removeDuplicateArticles
          (getNewsAPIArticles svc (companyNameOf s) s @ getFinnhubNews svc s
             @ getAlphaVantageNews svc s @ getPolygonNews svc s)) s))"
    using all by (simp only: cat)
  have s0: "configured (newsApiKey svc) \<and> newsApi svc (companyNameOf s) s = Articles as
        \<longrightarrow> getNewsAPIArticles svc (companyNameOf s) s = as"
    using adapter_successes(1) [of svc "companyNameOf s" s as] by blast
  have s1: "configured (finnhubKey svc) \<and> finnhub svc (toUpperCase s) = Articles as
        \<longrightarrow> getFinnhubNews svc s = take 15 as"
    using adapter_successes(2) [of svc s as] by blast
  have s2: "configured (alphavantageKey svc) \<and> alphaVantageFeed svc (toUpperCase s) = Articles as
        \<longrightarrow> getAlphaVantageNews svc s = as"
    using adapter_successes(3) [of svc s as] by blast
  have s3: "configured (polygonKey svc) \<and> polygonNews svc (toUpperCase s) = Articles as
        \<longrightarrow> getPolygonNews svc s = as"
    using adapter_successes(4) [of svc s as] by blast
  have f0: "\<not> configured (newsApiKey svc) \<or> newsApi svc (companyNameOf s) s = Unavailable e
        \<or> newsApi svc (companyNameOf s) s = NoList
        \<longrightarrow> getNewsAPIArticles svc (companyNameOf s) s = []"
    using adapter_failures(1) [of svc "companyNameOf s" s e] adapter_no_list(1) [of svc "companyNameOf s" s]
    by blast
  have f1: "\<not> configured (finnhubKey svc) \<or> finnhub svc (toUpperCase s) = Unavailable e
        \<or> finnhub svc (toUpperCase s) = NoList
        \<longrightarrow> getFinnhubNews svc s = []"
    using adapter_failures(2) [of svc s e] adapter_no_list(2) [of svc s] by blast
  have f2: "\<not> configured (alphavantageKey svc) \<or> alphaVantageFeed svc (toUpperCase s) = Unavailable e
        \<or> alphaVantageFeed svc (toUpperCase s) = NoList
        \<longrightarrow> getAlphaVantageNews svc s = []"
    using adapter_failures(3) [of svc s e] adapter_no_list(3) [of svc s] by blast
  have f3: "\<not> configured (polygonKey svc) \<or> polygonNews svc (toUpperCase s) = Unavailable e
        \<or> polygonNews svc (toUpperCase s) = NoList
        \<longrightarrow> getPolygonNews svc s = []"
    using adapter_failures(4) [of svc s e] adapter_no_list(4) [of svc s] by blast
  have one: "i < 4 \<and> (\<forall>j<4. j \<noteq> i \<longrightarrow> ?ls ! j = []) \<longrightarrow>
        (\<exists>ys. getComprehensiveNews svc now (JString s) = Fulfilled ys
           \<and> ys = take 25 (sortArticlesByRelevance (removeDuplicateArticles (?ls ! i)) s)
           \<and> set ys \<subseteq> set (?ls ! i)
           \<and> length ys \<le> 25
           \<and> (?ls ! i \<noteq> [] \<longrightarrow> ys \<noteq> [])
           \<and> (distinct (map dedupKey (?ls ! i)) \<and> length (?ls ! i) \<le> 25
                \<longrightarrow> mset ys = mset (?ls ! i)))"
    using one_list_delivered [OF all len, of i] by (rule impI)
  from c1 s0 s1 s2 s3 f0 f1 f2 f3 one show ?thesis by (intro conjI)
qed

theorem getComprehensiveNews_settle_all_witness:
  "length fiveArticles = 5
   \<and> getComprehensiveNews newsApiOnly 0 (JString ''TSLA'')
       = Fulfilled (map (\<lambda>i. fiveArticles ! i) [4, 1, 3, 2, 0])
   \<and> getComprehensiveNews finnhubOnly 0 (JString ''TSLA'')
       = Fulfilled (map (\<lambda>i. fiveArticles ! i) [4, 1, 3, 2, 0])
   \<and> getComprehensiveNews alphaVantageOnly 0 (JString ''TSLA'')
       = Fulfilled (map (\<lambda>i. fiveArticles ! i) [4, 1, 3, 2, 0])
   \<and> getComprehensiveNews polygonOnly 0 (JString ''TSLA'')
       = Fulfilled (map (\<lambda>i. fiveArticles ! i) [4, 1, 3, 2, 0])"
proof -
  have ha: "(0::nat) < 4 \<and> (\<forall>j<4. j \<noteq> 0 \<longrightarrow>
         [getNewsAPIArticles newsApiOnly (companyNameOf ''TSLA'') ''TSLA'', getFinnhubNews newsApiOnly ''TSLA'',
          getAlphaVantageNews newsApiOnly ''TSLA'', getPolygonNews newsApiOnly ''TSLA''] ! j = [])"
    by (simp add: only_lists numeral_eq_Suc less_Suc_eq)
  note ta = getComprehensiveNews_settle_all [of newsApiOnly 0 "''TSLA''" "[]" "[]" "0"]
  note oa = ta [THEN conjunct2, THEN conjunct2, THEN conjunct2, THEN conjunct2, THEN conjunct2,
      THEN conjunct2, THEN conjunct2, THEN conjunct2, THEN conjunct2, THEN mp, OF ha]
  from oa
  have "getComprehensiveNews newsApiOnly 0 (JString ''TSLA'') =
      Fulfilled (take 25 (sortArticlesByRelevance (removeDuplicateArticles
        ([getNewsAPIArticles newsApiOnly (companyNameOf ''TSLA'') ''TSLA'', getFinnhubNews newsApiOnly ''TSLA'',
          getAlphaVantageNews newsApiOnly ''TSLA'', getPolygonNews newsApiOnly ''TSLA''] ! 0)) ''TSLA''))"
    by blast
  then have a: "getComprehensiveNews newsApiOnly 0 (JString ''TSLA'')
       = Fulfilled (map (\<lambda>i. fiveArticles ! i) [4, 1, 3, 2, 0])"
    by (simp add: only_lists fiveArticles_ranked)
  have hb: "(1::nat) < 4 \<and> (\<forall>j<4. j \<noteq> 1 \<longrightarrow>
         [getNewsAPIArticles finnhubOnly (companyNameOf ''TSLA'') ''TSLA'', getFinnhubNews finnhubOnly ''TSLA'',
          getAlphaVantageNews finnhubOnly ''TSLA'', getPolygonNews finnhubOnly ''TSLA''] ! j = [])"
    by (simp add: only_lists numeral_eq_Suc less_Suc_eq)
  note tb = getComprehensiveNews_settle_all [of finnhubOnly 0 "''TSLA''" "[]" "[]" "1"]
  note ob = tb [THEN conjunct2, THEN conjunct2, THEN conjunct2, THEN conjunct2, THEN conjunct2,
      THEN conjunct2, THEN conjunct2, THEN conjunct2, THEN conjunct2, THEN mp, OF hb]
  from ob
  have "getComprehensiveNews finnhubOnly 0 (JString ''TSLA'') =
      Fulfilled (take 25 (sortArticlesByRelevance (removeDuplicateArticles
        ([getNewsAPIArticles finnhubOnly (companyNameOf ''TSLA'') ''TSLA'', getFinnhubNews finnhubOnly ''TSLA'',
          getAlphaVantageNews finnhubOnly ''TSLA'', getPolygonNews finnhubOnly ''TSLA''] ! 1)) ''TSLA''))"
    by blast
  then have b: "getComprehensiveNews finnhubOnly 0 (JString ''TSLA'')
       = Fulfilled (map (\<lambda>i. fiveArticles ! i) [4, 1, 3, 2, 0])"
    by (simp add: only_lists fiveArticles_ranked)
  have hc: "(2::nat) < 4 \<and> (\<forall>j<4. j \<noteq> 2 \<longrightarrow>
         [getNewsAPIArticles alphaVantageOnly (companyNameOf ''TSLA'') ''TSLA'', getFinnhubNews alphaVantageOnly ''TSLA'',
          getAlphaVantageNews alphaVantageOnly ''TSLA'', getPolygonNews alphaVantageOnly ''TSLA''] ! j = [])"
    by (simp add: only_lists numeral_eq_Suc less_Suc_eq)
  note tc = getComprehensiveNews_settle_all [of alphaVantageOnly 0 "''TSLA''" "[]" "[]" "2"]
  note oc = tc [THEN conjunct2, THEN conjunct2, THEN conjunct2, THEN conjunct2, THEN conjunct2,
      THEN conjunct2, THEN conjunct2, THEN conjunct2, THEN conjunct2, THEN mp, OF hc]
  from oc
  have "getComprehensiveNews alphaVantageOnly 0 (JString ''TSLA'') =
      Fulfilled (take 25 (sortArticlesByRelevance (removeDuplicateArticles
        ([getNewsAPIArticles alphaVantageOnly (companyNameOf ''TSLA'') ''TSLA'', getFinnhubNews alphaVantageOnly ''TSLA'',
          getAlphaVantageNews alphaVantageOnly ''TSLA'', getPolygonNews alphaVantageOnly ''TSLA''] ! 2)) ''TSLA''))"
    by blast
  then have c: "getComprehensiveNews alphaVantageOnly 0 (JString ''TSLA'')
       = Fulfilled (map (\<lambda>i. fiveArticles ! i) [4, 1, 3, 2, 0])"
    by (simp add: only_lists fiveArticles_ranked)
  have hd: "(3::nat) < 4 \<and> (\<forall>j<4. j \<noteq> 3 \<longrightarrow>
         [getNewsAPIArticles polygonOnly (companyNameOf ''TSLA'') ''TSLA'', getFinnhubNews polygonOnly ''TSLA'',
          getAlphaVantageNews polygonOnly ''TSLA'', getPolygonNews polygonOnly ''TSLA''] ! j = [])"
    by (simp add: only_lists numeral_eq_Suc less_Suc_eq)
  note td = getComprehensiveNews_settle_all [of polygonOnly 0 "''TSLA''" "[]" "[]" "3"]
  note od = td [THEN conjunct2, THEN conjunct2, THEN conjunct2, THEN conjunct2, THEN conjunct2,
      THEN conjunct2, THEN conjunct2, THEN conjunct2, THEN conjunct2, THEN mp, OF hd]
  from od
  have "getComprehensiveNews polygonOnly 0 (JString ''TSLA'') =
      Fulfilled (take 25 (sortArticlesByRelevance (removeDuplicateArticles
        ([getNewsAPIArticles polygonOnly (companyNameOf ''TSLA'') ''TSLA'', getFinnhubNews polygonOnly ''TSLA'',
          getAlphaVantageNews polygonOnly ''TSLA'', getPolygonNews polygonOnly ''TSLA''] ! 3)) ''TSLA''))"
    by blast
  then have d: "getComprehensiveNews polygonOnly 0 (JString ''TSLA'')
       = Fulfilled (map (\<lambda>i. fiveArticles ! i) [4, 1, 3, 2, 0])"
    by (simp add: only_lists fiveArticles_ranked)
  have "length fiveArticles = 5" by (simp add: fiveArticles_def)
  with a b c d show ?thesis by blast
qed

lemma length_getMockNews: "length (getMockNews sy now) = 1"
  by (simp add: getMockNews_def)

text \<open>
  C10: the promise of \<^verbatim>\<open>getComprehensiveNews\<close> is always fulfilled, with a list of at
  most 25 articles: the list of the body when the body returns, and when the body raises
  the single placeholder article of \<^verbatim>\<open>getMockNews\<close>, with the headline
  \<^verbatim>\<open><symbol> Market Analysis Update\<close>, the source \<^verbatim>\<open>Financial Analysis\<close> and a neutral
  sentiment. The body does raise when the symbol is not a string.
\<close>

theorem getComprehensiveNews_always_fulfilled:
  "(\<exists>as. getComprehensiveNews svc now sy = Fulfilled as \<and> length as \<le> 25)
   \<and> (\<forall>bs. comprehensiveNewsBody svc sy = Inr bs \<longrightarrow>
          getComprehensiveNews svc now sy = Fulfilled bs \<and> length bs \<le> 25)
   \<and> (\<forall>e. comprehensiveNewsBody svc sy = Inl e \<longrightarrow>
          (\<exists>p. getComprehensiveNews svc now sy = Fulfilled [p]
             \<and> headline p = toStr sy @ '' Market Analysis Update''
             \<and> source p = ''Financial Analysis''
             \<and> sentiment p = ''neutral''))
   \<and> comprehensiveNewsBody svc (JOther t r) = Inl ''symbol.toUpperCase is not a function''"
proof -
  have ok: "getComprehensiveNews svc now sy = Fulfilled bs \<and> length bs \<le> 25"
    if "comprehensiveNewsBody svc sy = Inr bs" for bs
  proof (cases sy)
    case (JString s)
    with that show ?thesis
      by (auto simp: getComprehensiveNews_def comprehensiveNewsBody_string)
  next
    case (JOther t r)
    with that show ?thesis by (simp add: comprehensiveNewsBody_other)
  qed
  have bad: "\<exists>p. getComprehensiveNews svc now sy = Fulfilled [p]
             \<and> headline p = toStr sy @ '' Market Analysis Update''
             \<and> source p = ''Financial Analysis''
             \<and> sentiment p = ''neutral''"
    if "comprehensiveNewsBody svc sy = Inl e" for e
    using that by (simp add: getComprehensiveNews_def getMockNews_def)
  have "\<exists>as. getComprehensiveNews svc now sy = Fulfilled as \<and> length as \<le> 25"
  proof (cases "comprehensiveNewsBody svc sy")
    case (Inl e)
    from bad [OF this] show ?thesis by auto
  next
    case (Inr bs)
    from ok [OF this] show ?thesis by blast
  qed
  with ok bad comprehensiveNewsBody_other [of svc t r] show ?thesis by blast
qed

theorem getComprehensiveNews_always_fulfilled_witness:
  "comprehensiveNewsBody finnhubOnly (JOther True ''123'') = Inl ''symbol.toUpperCase is not a function''
   \<and> (\<exists>p. getComprehensiveNews finnhubOnly 1712400000000 (JOther True ''123'') = Fulfilled [p]
          \<and> headline p = ''123 Market Analysis Update''
          \<and> source p = ''Financial Analysis'' \<and> sentiment p = ''neutral'')
   \<and> (\<exists>as. getComprehensiveNews finnhubOnly 1712400000000 (JString ''TSLA'') = Fulfilled as
          \<and> length as \<le> 25)"
  using getComprehensiveNews_always_fulfilled [of finnhubOnly 1712400000000 "JOther True ''123''" True "''123''"]
    getComprehensiveNews_always_fulfilled [of finnhubOnly 1712400000000 "JString ''TSLA''"]
  by (simp add: toStr_def)

section \<open>Properties of the earnings fallback\<close>

lemma adapter_results:
  "fst (getFMPEarnings svc s t) = fst (getFMPEarnings svc s [])"
  "fst (getAlphaVantageEarnings svc s t) = fst (getAlphaVantageEarnings svc s [])"
  "fst (getPolygonEarnings svc s t) = fst (getPolygonEarnings svc s [])"
  by (simp_all add: getFMPEarnings_def getAlphaVantageEarnings_def getPolygonEarnings_def)

lemma adapter_invocations:
  "invocations (snd (getFMPEarnings svc s t)) = invocations t @ [FMP]"
  "invocations (snd (getAlphaVantageEarnings svc s t)) = invocations t @ [AlphaVantage]"
  "invocations (snd (getPolygonEarnings svc s t)) = invocations t @ [Polygon]"
  by (simp_all add: getFMPEarnings_def getAlphaVantageEarnings_def getPolygonEarnings_def
      invocations_def)

lemma adapter_requests:
  "requests (snd (getFMPEarnings svc s t)) = requests t @ (if configured (fmpKey svc) then [FMP] else [])"
  "requests (snd (getAlphaVantageEarnings svc s t)) = requests t @ (if configured (alphavantageKey svc) then [AlphaVantage] else [])"
  "requests (snd (getPolygonEarnings svc s t)) = requests t @ (if configured (polygonKey svc) then [Polygon] else [])"
  by (simp_all add: getFMPEarnings_def getAlphaVantageEarnings_def getPolygonEarnings_def
      requests_def)

lemma getQuarterlyEarnings_result:
  "fst (getQuarterlyEarnings svc s t) =
     (let r1 = fst (getFMPEarnings svc s []);
          r2 = fst (getAlphaVantageEarnings svc s []);
          r3 = fst (getPolygonEarnings svc s [])
      in if success r1 then r1 else if success r2 then r2 else if success r3 then r3
         else generateMockEarnings)"
  using adapter_results(1) [of svc s t]
    adapter_results(2) [of svc s "snd (getFMPEarnings svc s t)"]
    adapter_results(3) [of svc s "snd (getAlphaVantageEarnings svc s (snd (getFMPEarnings svc s t)))"]
  by (simp add: getQuarterlyEarnings_def Let_def split_beta)

lemma getQuarterlyEarnings_trace:
  "snd (getQuarterlyEarnings svc s t) =
     snd (getPolygonEarnings svc s (snd (getAlphaVantageEarnings svc s (snd (getFMPEarnings svc s t)))))"
  by (simp add: getQuarterlyEarnings_def Let_def split_beta)

lemma getQuarterlyEarnings_invocations:
  "invocations (snd (getQuarterlyEarnings svc s t)) = invocations t @ [FMP, AlphaVantage, Polygon]"
  by (simp add: getQuarterlyEarnings_trace adapter_invocations)

lemma getQuarterlyEarnings_requests:
  "requests (snd (getQuarterlyEarnings svc s t)) = requests t @ 
     (if configured (fmpKey svc) then [FMP] else []) @
     (if configured (alphavantageKey svc) then [AlphaVantage] else []) @
     (if configured (polygonKey svc) then [Polygon] else [])"
  by (simp add: getQuarterlyEarnings_trace adapter_requests)

lemma allProviders_run:
  "getQuarterlyEarnings allProviders ''AAPL'' [] =
     (\<lparr>success = True, earningsSource = Some ''FMP'',
       analystExpectations = Some ''Data from FMP API'',
       historicalQuarters = Some 4, message = None\<rparr>,
      [Invoked FMP, Requested FMP, Invoked AlphaVantage, Requested AlphaVantage,
       Invoked Polygon, Requested Polygon])"
  by (simp add: getQuarterlyEarnings_def getFMPEarnings_def getAlphaVantageEarnings_def
      getPolygonEarnings_def allProviders_def configured_def)

text \<open>
  C3, the claim as stated fails: the first provider succeeds, its result is returned, and
  the two later adapters have been called and have sent their requests all the same.
\<close>

theorem getQuarterlyEarnings_short_circuit_counterexample:
  "success (fst (getFMPEarnings allProviders ''AAPL'' []))
   \<and> fst (getQuarterlyEarnings allProviders ''AAPL'' []) = fst (getFMPEarnings allProviders ''AAPL'' [])
   \<and> snd (getQuarterlyEarnings allProviders ''AAPL'' []) =
       [Invoked FMP, Requested FMP, Invoked AlphaVantage, Requested AlphaVantage,
        Invoked Polygon, Requested Polygon]"
  by (simp add: allProviders_run) (simp add: getFMPEarnings_def allProviders_def configured_def)

text \<open>
  C3, as amended: every call of \<^verbatim>\<open>getQuarterlyEarnings\<close> calls the three adapters, in
  the order FMP, Alpha Vantage, Polygon, and every adapter with a key sends its request,
  whatever the others answer. The result is the result of the first adapter, in that
  order, that reports success, unmerged; the results of the later adapters are dropped.
  When none reports success the result is the estimate, so the result always reports
  success.
\<close>

theorem getQuarterlyEarnings_first_success:
  "invocations (snd (getQuarterlyEarnings svc s [])) = [FMP, AlphaVantage, Polygon]
   \<and> requests (snd (getQuarterlyEarnings svc s [])) =
       (if configured (fmpKey svc) then [FMP] else []) @
       (if configured (alphavantageKey svc) then [AlphaVantage] else []) @
       (if configured (polygonKey svc) then [Polygon] else [])
   \<and> fst (getQuarterlyEarnings svc s t) =
       (if success (fst (getFMPEarnings svc s [])) then fst (getFMPEarnings svc s [])
        else if success (fst (getAlphaVantageEarnings svc s []))
          then fst (getAlphaVantageEarnings svc s [])
        else if success (fst (getPolygonEarnings svc s [])) then fst (getPolygonEarnings svc s [])
        else generateMockEarnings)
   \<and> success (fst (getQuarterlyEarnings svc s t))
   \<and> earningsSource generateMockEarnings = Some ''Estimated''"
proof -
  have i: "invocations (snd (getQuarterlyEarnings svc s [])) = [FMP, AlphaVantage, Polygon]"
    using getQuarterlyEarnings_invocations [of svc s "[]"] by (simp add: invocations_def)
  have r: "requests (snd (getQuarterlyEarnings svc s [])) =
       (if configured (fmpKey svc) then [FMP] else []) @
       (if configured (alphavantageKey svc) then [AlphaVantage] else []) @
       (if configured (polygonKey svc) then [Polygon] else [])"
    using getQuarterlyEarnings_requests [of svc s "[]"] by (simp add: requests_def)
  have f: "fst (getQuarterlyEarnings svc s t) =
       (if success (fst (getFMPEarnings svc s [])) then fst (getFMPEarnings svc s [])
        else if success (fst (getAlphaVantageEarnings svc s []))
          then fst (getAlphaVantageEarnings svc s [])
        else if success (fst (getPolygonEarnings svc s [])) then fst (getPolygonEarnings svc s [])
        else generateMockEarnings)"
    using getQuarterlyEarnings_result [of svc s t] by (simp add: Let_def)
  have m: "success generateMockEarnings" "earningsSource generateMockEarnings = Some ''Estimated''"
    by (simp_all add: generateMockEarnings_def)
  from f m have "success (fst (getQuarterlyEarnings svc s t))" by auto
  with i r f m show ?thesis by blast
qed

theorem getQuarterlyEarnings_first_success_witness:
  "invocations (snd (getQuarterlyEarnings allProviders ''AAPL'' [])) = [FMP, AlphaVantage, Polygon]
   \<and> requests (snd (getQuarterlyEarnings allProviders ''AAPL'' [])) = [FMP, AlphaVantage, Polygon]
   \<and> earningsSource (fst (getQuarterlyEarnings allProviders ''AAPL'' [])) = Some ''FMP''"
proof -
  from getQuarterlyEarnings_first_success [of allProviders "''AAPL''" "[]"]
  have i: "invocations (snd (getQuarterlyEarnings allProviders ''AAPL'' [])) = [FMP, AlphaVantage, Polygon]"
    and r: "requests (snd (getQuarterlyEarnings allProviders ''AAPL'' [])) =
       (if configured (fmpKey allProviders) then [FMP] else []) @
       (if configured (alphavantageKey allProviders) then [AlphaVantage] else []) @
       (if configured (polygonKey allProviders) then [Polygon] else [])"
    by blast+
  have k: "configured (fmpKey allProviders)" "configured (alphavantageKey allProviders)"
    "configured (polygonKey allProviders)"
    by (simp_all add: allProviders_def configured_def)
  have "earningsSource (fst (getQuarterlyEarnings allProviders ''AAPL'' [])) = Some ''FMP''"
    by (simp add: allProviders_run)
  with i r k show ?thesis by simp
qed

section \<open>Properties of the endpoint\<close>

lemma analyzeRoute_failure:
  assumes "s \<noteq> []" and "primaryFetch svc s = Failure err"
  shows "analyzeRoute svc now (JString s) =
     ErrorResponse 500
       (''Unable to fetch real market data for '' @ s @ ''. Please check the symbol and try again.'')
       (Some err)"
  using assms
  by (simp add: analyzeRoute_def primaryFetch_def truthy_def callToUpperCase_def toStr_def Let_def
      split: if_splits)

text \<open>
  C1: a request with a symbol whose primary fetch (CoinGecko for a crypto symbol, Yahoo
  otherwise) reports a failure is answered with status 500; the error message contains
  the symbol as it was sent, the details are the error of the fetch, and the response
  is not an analysis.
\<close>

theorem analyzeRoute_primary_failure:
  assumes "s \<noteq> []"
    and "(detectAssetType s = ''crypto'' \<and> getCryptoData svc s = Failure err)
         \<or> (detectAssetType s \<noteq> ''crypto'' \<and> getYahooFinanceData svc s = Failure err)"
  shows "analyzeRoute svc now (JString s) =
           ErrorResponse 500
             (''Unable to fetch real market data for '' @ s
                @ ''. Please check the symbol and try again.'')
             (Some err)
         \<and> primaryFetch svc s = Failure err
         \<and> (\<forall>status a. analyzeRoute svc now (JString s) \<noteq> AnalysisResponse status a)"
proof -
  from assms(2) have p: "primaryFetch svc s = Failure err"
    by (auto simp: primaryFetch_def)
  from analyzeRoute_failure [OF assms(1) p] p show ?thesis by simp
qed

lemma allProviders_fetches:
  "detectAssetType ''AAPL'' \<noteq> ''crypto''"
  "getYahooFinanceData allProviders ''AAPL'' = Failure ''Invalid Yahoo Finance response''"
  "detectAssetType ''btc'' = ''crypto''"
  "getCryptoData allProviders ''btc'' = Failure ''timeout of 10000ms exceeded''"
  by (simp_all add: detectAssetType_def getYahooFinanceData_def getCryptoData_def allProviders_def
      toUpperCase_def upperChar_def lowerAlpha_def upperAlpha_def cryptoSymbols_def etfSymbols_def)

theorem analyzeRoute_primary_failure_witness:
  "analyzeRoute allProviders 0 (JString ''AAPL'') =
     ErrorResponse 500
       ''Unable to fetch real market data for AAPL. Please check the symbol and try again.''
       (Some ''Invalid Yahoo Finance response'')
   \<and> analyzeRoute allProviders 0 (JString ''btc'') =
     ErrorResponse 500
       ''Unable to fetch real market data for btc. Please check the symbol and try again.''
       (Some ''timeout of 10000ms exceeded'')"
  using analyzeRoute_primary_failure [of "''AAPL''" allProviders "''Invalid Yahoo Finance response''" 0]
    analyzeRoute_primary_failure [of "''btc''" allProviders "''timeout of 10000ms exceeded''" 0]
    allProviders_fetches
  by simp

section \<open>Properties of the quotes\<close>

lemma getYahooFinanceData_chart:
  assumes "yahooChart svc (convertToYahooSymbol s) = YahooChart meta"
  shows "\<exists>q pc. getYahooFinanceData svc s = Success q
           \<and> previousClose q = Some pc
           \<and> change q = currentPrice q - pc
           \<and> (pc \<noteq> 0 \<longrightarrow> changePercent q = Num (change q / pc * 100))
           \<and> (truthyNum (metaPreviousClose meta) \<longrightarrow> metaPreviousClose meta = Some pc \<and> pc \<noteq> 0)
           \<and> (\<not> truthyNum (metaPreviousClose meta) \<longrightarrow>
                 pc = currentPrice q \<and> change q = 0
                 \<and> (currentPrice q \<noteq> 0 \<longrightarrow> changePercent q = Num 0))"
  using assms
  by (auto simp: getYahooFinanceData_def Let_def jsDivide_def jsTimes_def truthyNum_def orNum_def
      split: option.splits)

lemma priceBlock_percent:
  "map_of (priceBlockOf s meta) ''priceChangePercent'' =
     Some (case (metaPreviousClose meta, regularMarketPrice meta) of
             (Some pc, Some p) \<Rightarrow> if pc \<noteq> 0 \<and> p \<noteq> 0 then JNum ((p - pc) / pc * 100) else JNull
           | _ \<Rightarrow> JNull)"
  by (simp add: priceBlockOf_def)

lemma priceBlock_missing:
  "\<not> truthyNum (metaPreviousClose meta) \<Longrightarrow>
     map_of (priceBlockOf s meta) ''priceChangePercent'' = Some JNull"
  by (auto simp: priceBlockOf_def truthyNum_def split: option.splits)

lemma sample_quotes:
  "getYahooFinanceData (yahooAnswers priceOnlyMeta) ''AAPL'' = Success
     \<lparr>symbol = Some ''AAPL'', name = ''Apple Inc.'', currentPrice = 150,
      previousClose = Some 150, change = 0, changePercent = Num 0,
      volume = 0, marketCap = 0, currency = Some ''USD'', exchange = Some ''NMS''\<rparr>"
  "getYahooFinanceData (yahooAnswers emptyMeta) ''AAPL'' = Success
     \<lparr>symbol = Some ''AAPL'', name = ''Apple Inc.'', currentPrice = 0,
      previousClose = Some 0, change = 0, changePercent = NaN,
      volume = 0, marketCap = 0, currency = Some ''USD'', exchange = Some ''NMS''\<rparr>"
  "getYahooFinanceData (yahooAnswers fullMeta) ''AAPL'' = Success
     \<lparr>symbol = Some ''AAPL'', name = ''Apple Inc.'', currentPrice = 150,
      previousClose = Some 120, change = 30, changePercent = Num 25,
      volume = 0, marketCap = 0, currency = Some ''USD'', exchange = Some ''NMS''\<rparr>"
  by (simp_all add: getYahooFinanceData_def yahooAnswers_def priceOnlyMeta_def emptyMeta_def
      fullMeta_def Let_def orNum_def orStr_def jsDivide_def jsTimes_def)

lemma getCryptoData_coin:
  assumes "coinGeckoPrice svc (getCoinGeckoId s) = Coin d"
  shows "\<exists>q. getCryptoData svc s = Success q
           \<and> previousClose q = None
           \<and> currentPrice q = usd d
           \<and> changePercent q = Num (orNum (usd_24h_change d) 0)
           \<and> change q = usd d * orNum (usd_24h_change d) 0 / 100"
  using assms
  by (auto simp: getCryptoData_def truthyNum_def orNum_def split: option.splits)

lemma priceBlock_null:
  "\<not> truthyNum (metaPreviousClose meta) \<or> \<not> truthyNum (regularMarketPrice meta) \<Longrightarrow>
     map_of (priceBlockOf s meta) ''priceChangePercent'' = Some JNull"
  by (auto simp: priceBlockOf_def truthyNum_def split: option.splits)

lemma fetchPriceData_percent:
  "\<exists>p. fetchPriceData (Meta meta) = Fulfilled p
     \<and> (\<not> truthyNum (metaPreviousClose meta) \<longrightarrow> priceChangePercent0 p = Num 0)
     \<and> (\<forall>pr pc. regularMarketPrice meta = Some pr \<and> metaPreviousClose meta = Some pc \<and> pc \<noteq> 0
            \<longrightarrow> priceChangePercent0 p = Num ((pr - pc) / pc * 100))"
  by (auto simp: fetchPriceData_def truthyNum_def orNum_def jsDivide_def jsTimes_def)

lemma fetchPriceData_axios_percent:
  "\<exists>p. fetchPriceData_axios (Meta meta) = Fulfilled p
     \<and> (\<forall>pr pc. regularMarketPrice meta = Some pr \<and> metaPreviousClose meta = Some pc \<and> pc \<noteq> 0
            \<longrightarrow> rawChangePercent p = Num ((pr - pc) / pc * 100))"
  by (auto simp: fetchPriceData_axios_def jsDivide_def jsTimes_def)

lemma sample_crypto_quote:
  "getCryptoData (coinAnswers btcCoin) ''btc'' = Success
     \<lparr>symbol = Some ''BTC'', name = ''BTC'', currentPrice = 60000,
      previousClose = None, change = 1200, changePercent = Num 2,
      volume = 30000000000, marketCap = 1200000000000, currency = None, exchange = None\<rparr>"
  by (simp add: getCryptoData_def coinAnswers_def btcCoin_def truthyNum_def orNum_def
      toUpperCase_def upperChar_def lowerAlpha_def upperAlpha_def)

lemma sample_percentages:
  "map_of (priceBlockOf ''AAPL'' zeroPriceMeta) ''priceChangePercent'' = Some JNull"
  "map_of (priceBlockOf ''AAPL'' fullMeta) ''priceChangePercent'' = Some (JNum 25)"
  "\<exists>p. fetchPriceData (Meta priceOnlyMeta) = Fulfilled p \<and> priceChangePercent0 p = Num 0"
  "\<exists>p. fetchPriceData (Meta fullMeta) = Fulfilled p \<and> priceChangePercent0 p = Num 25"
  "\<exists>p. fetchPriceData_axios (Meta fullMeta) = Fulfilled p \<and> rawChangePercent p = Num 25"
  by (simp_all add: priceBlockOf_def fetchPriceData_def fetchPriceData_axios_def zeroPriceMeta_def
      priceOnlyMeta_def fullMeta_def emptyMeta_def truthyNum_def orNum_def orStr_def
      jsDivide_def jsTimes_def)

text \<open>
  Two places where the code does divide by zero, which the amended claim neither promises
  nor denies. When Yahoo gives neither a price nor a previous close,
  \<^verbatim>\<open>getYahooFinanceData\<close> divides 0 by 0 and the quote carries NaN as its percentage.
  The axios version of \<^verbatim>\<open>fetchPriceData\<close> has no test at all: a previous close of 0
  gives an infinity, an absent one NaN. The labelled version of the same function has
  the test that this one lacks.
\<close>

lemma division_by_zero_defects:
  "\<exists>q. getYahooFinanceData (yahooAnswers emptyMeta) ''AAPL'' = Success q
        \<and> previousClose q = Some 0
        \<and> changePercent q = jsTimes (jsDivide 0 0) 100 \<and> changePercent q = NaN"
  "\<exists>p. fetchPriceData_axios (Meta zeroCloseMeta) = Fulfilled p \<and> rawChangePercent p = PosInfinity"
  "\<exists>p. fetchPriceData_axios (Meta priceOnlyMeta) = Fulfilled p \<and> rawChangePercent p = NaN"
proof -
  show "\<exists>q. getYahooFinanceData (yahooAnswers emptyMeta) ''AAPL'' = Success q
        \<and> previousClose q = Some 0
        \<and> changePercent q = jsTimes (jsDivide 0 0) 100 \<and> changePercent q = NaN"
    by (simp add: sample_quotes jsDivide_def jsTimes_def)
  show "\<exists>p. fetchPriceData_axios (Meta zeroCloseMeta) = Fulfilled p \<and> rawChangePercent p = PosInfinity"
    by (simp add: fetchPriceData_axios_def zeroCloseMeta_def emptyMeta_def jsDivide_def jsTimes_def)
  show "\<exists>p. fetchPriceData_axios (Meta priceOnlyMeta) = Fulfilled p \<and> rawChangePercent p = NaN"
    by (simp add: fetchPriceData_axios_def priceOnlyMeta_def emptyMeta_def)
qed

text \<open>
  C9, the claim as stated fails, in four quotes. \<^verbatim>\<open>getYahooFinanceData\<close>: Yahoo gives
  a price and no previous close, and the quote has the price as its previous close and
  a change of 0 percent, a number and not a missing value. \<^verbatim>\<open>getCryptoData\<close>: the
  quote has no previous close at all, and its percentage is the provider's figure.
  \<^verbatim>\<open>api/analyze.js\<close>: with a previous close of 120 and a price of 0 the percentage
  is \<^verbatim>\<open>null\<close>, not the value of the formula. The labelled handler: without a previous
  close its percentage is 0, not a missing value.
\<close>

theorem quote_change_percent_counterexample:
  "metaPreviousClose priceOnlyMeta = None
   \<and> (\<exists>q. getYahooFinanceData (yahooAnswers priceOnlyMeta) ''AAPL'' = Success q
          \<and> previousClose q = Some 150 \<and> changePercent q = Num 0)
   \<and> (\<exists>q. getCryptoData (coinAnswers btcCoin) ''btc'' = Success q
          \<and> previousClose q = None \<and> changePercent q = Num 2 \<and> change q = 1200)
   \<and> metaPreviousClose zeroPriceMeta = Some 120
   \<and> regularMarketPrice zeroPriceMeta = Some 0
   \<and> map_of (priceBlockOf ''AAPL'' zeroPriceMeta) ''priceChangePercent'' = Some JNull
   \<and> (\<exists>p. fetchPriceData (Meta priceOnlyMeta) = Fulfilled p \<and> priceChangePercent0 p = Num 0)"
proof -
  have m: "metaPreviousClose priceOnlyMeta = None" "metaPreviousClose zeroPriceMeta = Some 120"
    "regularMarketPrice zeroPriceMeta = Some 0"
    by (simp_all add: priceOnlyMeta_def zeroPriceMeta_def emptyMeta_def)
  have y: "\<exists>q. getYahooFinanceData (yahooAnswers priceOnlyMeta) ''AAPL'' = Success q
          \<and> previousClose q = Some 150 \<and> changePercent q = Num 0"
    by (simp add: sample_quotes)
  have c: "\<exists>q. getCryptoData (coinAnswers btcCoin) ''btc'' = Success q
          \<and> previousClose q = None \<and> changePercent q = Num 2 \<and> change q = 1200"
    by (simp add: sample_crypto_quote)
  from m y c sample_percentages(1) sample_percentages(3) show ?thesis by blast
qed

text \<open>
  C9, as amended, for every quote built from provider data.
  \<^verbatim>\<open>getYahooFinanceData\<close>: \<open>change = currentPrice - previousClose\<close>, and
  \<open>changePercent = change / previousClose * 100\<close> whenever the previous close is not 0; a
  previous close that Yahoo gives, other than 0, is the previous close of the quote;
  when Yahoo gives none, or 0, the current price stands in for it, so that the change
  is 0 and, for a current price other than 0, the percentage is the number 0.
  \<^verbatim>\<open>getCryptoData\<close>: the quote has no previous close, its percentage is the provider's
  24-hour change (0 when that is absent or 0) and its change is
  \<open>currentPrice * changePercent / 100\<close>. \<^verbatim>\<open>api/analyze.js\<close>: the percentage is
  \<open>(price - previousClose) / previousClose * 100\<close> when price and previous close are both
  present and not 0, and \<^verbatim>\<open>null\<close> otherwise. The two other versions of the handler:
  the percentage is that formula when both are present and the previous close is not 0;
  the labelled version gives 0 when the previous close is absent or 0.
\<close>

theorem quote_change_percent:
  "(yahooChart svc (convertToYahooSymbol s) = YahooChart meta \<longrightarrow>
      (\<exists>q pc. getYahooFinanceData svc s = Success q
           \<and> previousClose q = Some pc
           \<and> change q = currentPrice q - pc
           \<and> (pc \<noteq> 0 \<longrightarrow> changePercent q = Num (change q / pc * 100))
           \<and> (truthyNum (metaPreviousClose meta) \<longrightarrow> metaPreviousClose meta = Some pc \<and> pc \<noteq> 0)
           \<and> (\<not> truthyNum (metaPreviousClose meta) \<longrightarrow>
                 pc = currentPrice q \<and> change q = 0
                 \<and> (currentPrice q \<noteq> 0 \<longrightarrow> changePercent q = Num 0))))
   \<and> (coinGeckoPrice svc (getCoinGeckoId s) = Coin d \<longrightarrow>
      (\<exists>q. getCryptoData svc s = Success q
           \<and> previousClose q = None
           \<and> currentPrice q = usd d
           \<and> changePercent q = Num (orNum (usd_24h_change d) 0)
           \<and> change q = usd d * orNum (usd_24h_change d) 0 / 100))
   \<and> map_of (priceBlockOf s meta) ''priceChangePercent'' =
       Some (case (metaPreviousClose meta, regularMarketPrice meta) of
               (Some pc, Some p) \<Rightarrow>
                 if pc \<noteq> 0 \<and> p \<noteq> 0 then JNum ((p - pc) / pc * 100) else JNull
             | _ \<Rightarrow> JNull)
   \<and> (\<not> truthyNum (metaPreviousClose meta) \<or> \<not> truthyNum (regularMarketPrice meta) \<longrightarrow>
         map_of (priceBlockOf s meta) ''priceChangePercent'' = Some JNull)
   \<and> (\<exists>p. fetchPriceData (Meta meta) = Fulfilled p
         \<and> (\<not> truthyNum (metaPreviousClose meta) \<longrightarrow> priceChangePercent0 p = Num 0)
         \<and> (\<forall>pr pc. regularMarketPrice meta = Some pr \<and> metaPreviousClose meta = Some pc
                  \<and> pc \<noteq> 0
                \<longrightarrow> priceChangePercent0 p = Num ((pr - pc) / pc * 100)))
   \<and> (\<exists>p. fetchPriceData_axios (Meta meta) = Fulfilled p
         \<and> (\<forall>pr pc. regularMarketPrice meta = Some pr \<and> metaPreviousClose meta = Some pc
                  \<and> pc \<noteq> 0
                \<longrightarrow> rawChangePercent p = Num ((pr - pc) / pc * 100)))"
proof -
  have y: "yahooChart svc (convertToYahooSymbol s) = YahooChart meta \<longrightarrow>
      (\<exists>q pc. getYahooFinanceData svc s = Success q
           \<and> previousClose q = Some pc
           \<and> change q = currentPrice q - pc
           \<and> (pc \<noteq> 0 \<longrightarrow> changePercent q = Num (change q / pc * 100))
           \<and> (truthyNum (metaPreviousClose meta) \<longrightarrow> metaPreviousClose meta = Some pc \<and> pc \<noteq> 0)
           \<and> (\<not> truthyNum (metaPreviousClose meta) \<longrightarrow>
                 pc = currentPrice q \<and> change q = 0
                 \<and> (currentPrice q \<noteq> 0 \<longrightarrow> changePercent q = Num 0)))"
    using getYahooFinanceData_chart [of svc s meta] by blast
  have c: "coinGeckoPrice svc (getCoinGeckoId s) = Coin d \<longrightarrow>
      (\<exists>q. getCryptoData svc s = Success q
           \<and> previousClose q = None
           \<and> currentPrice q = usd d
           \<and> changePercent q = Num (orNum (usd_24h_change d) 0)
           \<and> change q = usd d * orNum (usd_24h_change d) 0 / 100)"
    using getCryptoData_coin [of svc s d] by blast
  have n: "\<not> truthyNum (metaPreviousClose meta) \<or> \<not> truthyNum (regularMarketPrice meta) \<longrightarrow>
         map_of (priceBlockOf s meta) ''priceChangePercent'' = Some JNull"
    using priceBlock_null [of meta s] by blast
  from y c n priceBlock_percent [of s meta] fetchPriceData_percent [of meta]
    fetchPriceData_axios_percent [of meta]
  show ?thesis by (intro conjI)
qed

theorem quote_change_percent_witness:
  "yahooChart (yahooAnswers fullMeta) (convertToYahooSymbol ''AAPL'') = YahooChart fullMeta
   \<and> (\<exists>q. getYahooFinanceData (yahooAnswers fullMeta) ''AAPL'' = Success q
          \<and> currentPrice q = 150 \<and> previousClose q = Some 120 \<and> change q = 30
          \<and> changePercent q = Num 25)
   \<and> coinGeckoPrice (coinAnswers btcCoin) (getCoinGeckoId ''btc'') = Coin btcCoin
   \<and> (\<exists>q. getCryptoData (coinAnswers btcCoin) ''btc'' = Success q
          \<and> currentPrice q = 60000 \<and> changePercent q = Num 2 \<and> change q = 1200)
   \<and> map_of (priceBlockOf ''AAPL'' fullMeta) ''priceChangePercent'' = Some (JNum 25)"
proof -
  have a: "yahooChart (yahooAnswers fullMeta) (convertToYahooSymbol ''AAPL'') = YahooChart fullMeta"
    by (simp add: yahooAnswers_def)
  have b: "coinGeckoPrice (coinAnswers btcCoin) (getCoinGeckoId ''btc'') = Coin btcCoin"
    by (simp add: coinAnswers_def)
  from quote_change_percent [of "yahooAnswers fullMeta" "''AAPL''" fullMeta]
  have "map_of (priceBlockOf ''AAPL'' fullMeta) ''priceChangePercent'' =
       Some (case (metaPreviousClose fullMeta, regularMarketPrice fullMeta) of
               (Some pc, Some p) \<Rightarrow>
                 if pc \<noteq> 0 \<and> p \<noteq> 0 then JNum ((p - pc) / pc * 100) else JNull
             | _ \<Rightarrow> JNull)"
    by blast
  then have p: "map_of (priceBlockOf ''AAPL'' fullMeta) ''priceChangePercent'' = Some (JNum 25)"
    by (simp add: fullMeta_def emptyMeta_def)
  from quote_change_percent [of "coinAnswers btcCoin" "''btc''" _ btcCoin] b
  have "\<exists>q. getCryptoData (coinAnswers btcCoin) ''btc'' = Success q
           \<and> previousClose q = None
           \<and> currentPrice q = usd btcCoin
           \<and> changePercent q = Num (orNum (usd_24h_change btcCoin) 0)
           \<and> change q = usd btcCoin * orNum (usd_24h_change btcCoin) 0 / 100"
    by blast
  then have c: "\<exists>q. getCryptoData (coinAnswers btcCoin) ''btc'' = Success q
          \<and> currentPrice q = 60000 \<and> changePercent q = Num 2 \<and> change q = 1200"
    by (auto simp: btcCoin_def orNum_def)
  from a b p c show ?thesis by (simp add: sample_quotes)
qed

section \<open>Properties of the serverless handlers\<close>

lemma analyzeHandler_fallback:
  "s \<noteq> [] \<Longrightarrow> resp = NotOk \<or> resp = NoMeta \<Longrightarrow>
     analyzeHandler ''POST'' (JString s) resp ts = Json 200 (analysisBody (mockPriceBlock s) s ts)"
  by (auto simp: analyzeHandler_def)

lemma analyzeHandler_meta:
  "s \<noteq> [] \<Longrightarrow>
     analyzeHandler ''POST'' (JString s) (Meta meta) ts = Json 200 (analysisBody (priceBlockOf s meta) s ts)"
  by (simp add: analyzeHandler_def)

lemma mock_body_unmarked: "\<not> hasMarker (analysisBody (mockPriceBlock s) s ts)"
  by (simp add: hasMarker_def markerFields_def analysisBody_def mockPriceBlock_def)

lemma mock_body_same_properties:
  "map fst (analysisBody (mockPriceBlock s) s ts) = map fst (analysisBody (priceBlockOf s meta) s ts)"
  by (simp add: analysisBody_def mockPriceBlock_def priceBlockOf_def)

lemma labelledHandler_marks:
  "\<exists>body. labelledHandler ''POST'' (JString ''AAPL'') NotOk news ts = Json 200 body
     \<and> map_of body ''source'' = Some (JStr ''mock-fallback'') \<and> hasMarker body"
  by (simp add: labelledHandler_def truthy_def callToUpperCase_def fetchPriceData_def
      hasMarker_def markerFields_def)

lemma labelledHandler_marks_real:
  "\<exists>body. labelledHandler ''POST'' (JString ''AAPL'') (Meta meta) news ts = Json 200 body
     \<and> map_of body ''source'' = Some (JStr ''yahoo-finance'')"
  by (simp add: labelledHandler_def truthy_def callToUpperCase_def fetchPriceData_def)

text \<open>
  C2, evaluated where the code departs from the claim. Yahoo answers the handler of
  \<^verbatim>\<open>api/analyze.js\<close> with a status that is not 2xx: the handler responds with status 200
  and its fixed price block (a price of 150.25), in a body with no marker property and
  with exactly the property names of a response made from Yahoo's data. The other
  version of the handler labels the same fallback \<^verbatim>\<open>source: 'mock-fallback'\<close>.
\<close>

theorem analyzeHandler_mock_unmarked:
  "analyzeHandler ''POST'' (JString ''AAPL'') NotOk ts
     = Json 200 (analysisBody (mockPriceBlock ''AAPL'') ''AAPL'' ts)
   \<and> map_of (analysisBody (mockPriceBlock ''AAPL'') ''AAPL'' ts) ''currentPrice''
       = Some (JNum (15025 / 100))
   \<and> map_of (analysisBody (mockPriceBlock ''AAPL'') ''AAPL'' ts) ''source'' = None
   \<and> \<not> hasMarker (analysisBody (mockPriceBlock ''AAPL'') ''AAPL'' ts)
   \<and> map fst (analysisBody (mockPriceBlock ''AAPL'') ''AAPL'' ts)
       = map fst (analysisBody (priceBlockOf ''AAPL'' meta) ''AAPL'' ts)
   \<and> (\<exists>body. labelledHandler ''POST'' (JString ''AAPL'') NotOk news ts = Json 200 body
          \<and> map_of body ''source'' = Some (JStr ''mock-fallback''))"
proof -
  have a: "analyzeHandler ''POST'' (JString ''AAPL'') NotOk ts
     = Json 200 (analysisBody (mockPriceBlock ''AAPL'') ''AAPL'' ts)"
    by (simp add: analyzeHandler_fallback)
  have b: "map_of (analysisBody (mockPriceBlock ''AAPL'') ''AAPL'' ts) ''currentPrice''
       = Some (JNum (15025 / 100))"
    "map_of (analysisBody (mockPriceBlock ''AAPL'') ''AAPL'' ts) ''source'' = None"
    by (simp_all add: analysisBody_def mockPriceBlock_def)
  from a b mock_body_unmarked [of "''AAPL''" ts] mock_body_same_properties [of "''AAPL''" ts meta]
    labelledHandler_marks [of news ts]
  show ?thesis by blast
qed


end
